theory Spec2Isabelle
  imports Main "HOL-Library.Word"
begin

unbundle bit_operations_syntax

section \<open>KS236 probe protocol: data model\<close>

text \<open>
  The four scripts exchange Python \<open>bytes\<close> with a pyserial port. A byte is an
  8-bit word, a \<open>bytes\<close> value a list of them. Python integers (probe numbers,
  parameter values, retry budgets) are unbounded and are modelled as \<open>int\<close>.
\<close>

type_synonym byte = "8 word"
type_synonym bytes = "byte list"

datatype py_error = ValueError | KeyError | IndexError

text \<open>Protocol constants, the same in all four classes.\<close>

definition ADDR_CODE :: byte where
  "ADDR_CODE = 0xE8"

definition CMD_CODE :: byte where
  "CMD_CODE = 0x99"

subsection \<open>The serial port\<close>

text \<open>
  The code talks to \<open>self.serial_port\<close> through four methods. Each may raise
  (the retry code catches \<open>Exception\<close>), so each returns an outcome. The device is any
  deterministic state machine over a state type \<open>'s\<close>; the port pairs the device
  state with a trace of the calls made, so that the number of transport writes can be
  counted. \<open>time.sleep\<close> and \<open>print\<close> do not touch the port and are left out.
\<close>

datatype 'a outcome = Raises | Returns 'a

datatype event = EvReset | EvWrite bytes | EvFlush | EvRead nat

record 's device =
  dev_reset_input_buffer :: "'s \<Rightarrow> unit outcome \<times> 's"
  dev_write :: "bytes \<Rightarrow> 's \<Rightarrow> nat outcome \<times> 's"
  dev_flush :: "'s \<Rightarrow> unit outcome \<times> 's"
  dev_read :: "nat \<Rightarrow> 's \<Rightarrow> bytes outcome \<times> 's"

record 's port =
  dev_state :: 's
  trace :: "event list"

definition port_reset_input_buffer :: "'s device \<Rightarrow> 's port \<Rightarrow> unit outcome \<times> 's port" where
  "port_reset_input_buffer d p =
     (case dev_reset_input_buffer d (dev_state p) of
        (r, s') \<Rightarrow> (r, \<lparr>dev_state = s', trace = trace p @ [EvReset]\<rparr>))"

definition port_write :: "'s device \<Rightarrow> bytes \<Rightarrow> 's port \<Rightarrow> nat outcome \<times> 's port" where
  "port_write d data p =
     (case dev_write d data (dev_state p) of
        (r, s') \<Rightarrow> (r, \<lparr>dev_state = s', trace = trace p @ [EvWrite data]\<rparr>))"

definition port_flush :: "'s device \<Rightarrow> 's port \<Rightarrow> unit outcome \<times> 's port" where
  "port_flush d p =
     (case dev_flush d (dev_state p) of
        (r, s') \<Rightarrow> (r, \<lparr>dev_state = s', trace = trace p @ [EvFlush]\<rparr>))"

text \<open>\<open>read(n)\<close> hands back at most \<open>n\<close> bytes.\<close>

definition port_read :: "'s device \<Rightarrow> nat \<Rightarrow> 's port \<Rightarrow> bytes outcome \<times> 's port" where
  "port_read d n p =
     (case dev_read d n (dev_state p) of
        (r, s') \<Rightarrow>
          ((case r of Raises \<Rightarrow> Raises | Returns data \<Rightarrow> Returns (take n data)),
           \<lparr>dev_state = s', trace = trace p @ [EvRead n]\<rparr>))"

fun is_write :: "event \<Rightarrow> bool" where
  "is_write (EvWrite data) = True"
| "is_write e = False"

definition writes :: "'s port \<Rightarrow> nat" where
  "writes p = length (filter is_write (trace p))"

text \<open>The frames handed to \<open>write\<close>, in the order of the calls.\<close>

fun write_data :: "event \<Rightarrow> bytes list" where
  "write_data (EvWrite data) = [data]"
| "write_data e = []"

definition frames_written :: "'s port \<Rightarrow> bytes list" where
  "frames_written p = concat (map write_data (trace p))"

subsection \<open>Checksum\<close>

text \<open>
  \<open>calculate_bcc\<close> is the same loop in all four classes:
  \<^verbatim>\<open>bcc = 0; for byte in data: bcc ^= byte; return bcc\<close>
\<close>

fun bcc_loop :: "byte \<Rightarrow> bytes \<Rightarrow> byte" where
  "bcc_loop bcc [] = bcc"
| "bcc_loop bcc (byte # data) = bcc_loop (bcc XOR byte) data"

definition calculate_bcc :: "bytes \<Rightarrow> byte" where
  "calculate_bcc data = bcc_loop 0 data"

text \<open>
  The specification's XOR-fold of a sequence of length at least 1: the first byte
  combined left to right with each following byte.
\<close>

definition xor_fold :: "bytes \<Rightarrow> byte" where
  "xor_fold seq = foldl (XOR) (hd seq) (tl seq)"

section \<open>KS236EnergyReader (ks236\_energy\_get.py)\<close>

definition ER_PROBE_PARAMS :: "int \<rightharpoonup> byte" where
  "ER_PROBE_PARAMS = map_of
     [(1, 0xD1), (2, 0xD2), (3, 0xD3), (4, 0xD4), (5, 0xD5),
      (6, 0xD6), (7, 0xD7), (8, 0xD8), (9, 0xD9)]"

definition ER_EXPECTED_RESPONSE_LENGTH :: nat where
  "ER_EXPECTED_RESPONSE_LENGTH = 15"

definition er_create_query_command :: "int \<Rightarrow> py_error + bytes" where
  "er_create_query_command probe_num =
     (case ER_PROBE_PARAMS probe_num of
        None \<Rightarrow> Inl ValueError
      | Some param \<Rightarrow>
          (let bcc = (ADDR_CODE XOR CMD_CODE) XOR param
           in Inr [ADDR_CODE, CMD_CODE, param, bcc]))"

text \<open>
  \<open>response[-1]\<close> and \<open>response[:-1]\<close> are only reached when the length is 15,
  so they are \<open>last\<close> and \<open>butlast\<close>. The table lookup raises \<open>KeyError\<close> for a
  probe number that is not a key.
\<close>

definition er_validate_response :: "bytes \<Rightarrow> int \<Rightarrow> py_error + bool" where
  "er_validate_response response expected_probe_num =
     (if length response \<noteq> ER_EXPECTED_RESPONSE_LENGTH then Inr False
      else if response ! 0 \<noteq> ADDR_CODE \<or> response ! 1 \<noteq> CMD_CODE then Inr False
      else (case ER_PROBE_PARAMS expected_probe_num of
              None \<Rightarrow> Inl KeyError
            | Some expected_param \<Rightarrow>
                if response ! 2 \<noteq> expected_param then Inr False
                else (let expected_bcc = calculate_bcc (butlast response)
                      in if last response \<noteq> expected_bcc then Inr False
                         else Inr True)))"

text \<open>
  The parsed dictionary. The hexadecimal strings (\<open>probe_id\<close>, the fixed
  parameters, \<open>bcc\<close>, \<open>raw_response\<close>) are kept as the bytes they print.
\<close>

record range_params =
  energy :: int
  time :: int
  threshold :: int

record er_parsed =
  parsed_probe_num :: int
  probe_id :: byte
  range_2_5m :: range_params
  range_1_5m :: range_params
  range_6_5m :: range_params
  fixed_param1 :: byte
  fixed_param2 :: byte
  parsed_bcc :: byte
  raw_response :: bytes

definition er_parse_response :: "bytes \<Rightarrow> int \<Rightarrow> er_parsed" where
  "er_parse_response response probe_num =
     \<lparr>parsed_probe_num = probe_num,
      probe_id = response ! 2,
      range_2_5m = \<lparr>energy = uint (response ! 3), time = uint (response ! 4),
                    threshold = uint (response ! 5)\<rparr>,
      range_1_5m = \<lparr>energy = uint (response ! 6), time = uint (response ! 7),
                    threshold = uint (response ! 8)\<rparr>,
      range_6_5m = \<lparr>energy = uint (response ! 9), time = uint (response ! 10),
                    threshold = uint (response ! 11)\<rparr>,
      fixed_param1 = response ! 12,
      fixed_param2 = response ! 13,
      parsed_bcc = response ! 14,
      raw_response = response\<rparr>"

text \<open>
  One pass of the body of the \<open>for attempt in range(max_retries)\<close> loop of
  \<open>query_probe\<close>: \<open>Some r\<close> is \<open>return r\<close>, \<open>None\<close> goes on to the next
  attempt (a \<open>continue\<close>, the end of the body, or an exception caught by
  \<open>except Exception\<close>). The attempt index only sets sleep times and messages.
\<close>

definition er_query_attempt ::
  "'s device \<Rightarrow> bytes \<Rightarrow> int \<Rightarrow> nat \<Rightarrow> 's port \<Rightarrow> er_parsed option \<times> 's port" where
  "er_query_attempt d command probe_num attempt p =
     (case port_reset_input_buffer d p of
        (Raises, p1) \<Rightarrow> (None, p1)
      | (Returns u, p1) \<Rightarrow>
     (case port_write d command p1 of
        (Raises, p2) \<Rightarrow> (None, p2)
      | (Returns bytes_sent, p2) \<Rightarrow>
     (case port_flush d p2 of
        (Raises, p3) \<Rightarrow> (None, p3)
      | (Returns u', p3) \<Rightarrow>
          if bytes_sent \<noteq> length command then (None, p3)
          else
     (case port_read d ER_EXPECTED_RESPONSE_LENGTH p3 of
        (Raises, p4) \<Rightarrow> (None, p4)
      | (Returns response, p4) \<Rightarrow>
          if length response = ER_EXPECTED_RESPONSE_LENGTH then
            (case er_validate_response response probe_num of
               Inl e \<Rightarrow> (None, p4)
             | Inr valid \<Rightarrow>
                 if valid then (Some (er_parse_response response probe_num), p4)
                 else (None, p4))
          else (None, p4)))))"

fun er_query_attempts ::
  "'s device \<Rightarrow> bytes \<Rightarrow> int \<Rightarrow> nat list \<Rightarrow> 's port \<Rightarrow> er_parsed option \<times> 's port" where
  "er_query_attempts d command probe_num [] p = (None, p)"
| "er_query_attempts d command probe_num (attempt # rest) p =
     (case er_query_attempt d command probe_num attempt p of
        (Some r, p') \<Rightarrow> (Some r, p')
      | (None, p') \<Rightarrow> er_query_attempts d command probe_num rest p')"

text \<open>
  \<open>create_query_command\<close> is called outside the \<open>try\<close>: its \<open>ValueError\<close>
  leaves \<open>query_probe\<close>. \<open>range(max_retries)\<close> is empty for a budget below 1.
\<close>

definition er_query_probe ::
  "'s device \<Rightarrow> int \<Rightarrow> int \<Rightarrow> 's port \<Rightarrow> (py_error + er_parsed option) \<times> 's port" where
  "er_query_probe d probe_num max_retries p =
     (case er_create_query_command probe_num of
        Inl e \<Rightarrow> (Inl e, p)
      | Inr command \<Rightarrow>
          (case er_query_attempts d command probe_num [0 ..< nat max_retries] p of
             (r, p') \<Rightarrow> (Inr r, p')))"

section \<open>KS236PValueReader (ks236\_p\_get.py)\<close>

definition PR_PROBE_PARAMS :: "int \<rightharpoonup> byte" where
  "PR_PROBE_PARAMS = map_of
     [(1, 0xE1), (2, 0xE2), (3, 0xE3), (4, 0xE4), (5, 0xE5),
      (6, 0xE6), (7, 0xE7), (8, 0xE8), (9, 0xE9)]"

definition PR_EXPECTED_RESPONSE_LENGTH :: nat where
  "PR_EXPECTED_RESPONSE_LENGTH = 21"

text \<open>The defaults of the auxiliary parameters P13 to P17, in that order.\<close>

definition DEFAULT_AUX_VALUES :: "int list" where
  "DEFAULT_AUX_VALUES = [0x00, 0x03, 0x01, 0x00, 0x01]"

definition pr_create_query_command :: "int \<Rightarrow> py_error + bytes" where
  "pr_create_query_command probe_num =
     (case PR_PROBE_PARAMS probe_num of
        None \<Rightarrow> Inl ValueError
      | Some param \<Rightarrow>
          (let bcc = (ADDR_CODE XOR CMD_CODE) XOR param
           in Inr [ADDR_CODE, CMD_CODE, param, bcc]))"

definition pr_validate_response :: "bytes \<Rightarrow> int \<Rightarrow> py_error + bool" where
  "pr_validate_response response expected_probe_num =
     (if length response \<noteq> PR_EXPECTED_RESPONSE_LENGTH then Inr False
      else if response ! 0 \<noteq> ADDR_CODE \<or> response ! 1 \<noteq> CMD_CODE then Inr False
      else (case PR_PROBE_PARAMS expected_probe_num of
              None \<Rightarrow> Inl KeyError
            | Some expected_param \<Rightarrow>
                if response ! 2 \<noteq> expected_param then Inr False
                else (let expected_bcc = calculate_bcc (butlast response)
                      in if last response \<noteq> expected_bcc then Inr False
                         else Inr True)))"

text \<open>
  The parsed P-value dictionary: the twelve main phase values, and for each of the
  five auxiliary values the value and whether it is the default. The descriptive
  strings are left out.
\<close>

record pr_parsed =
  pr_probe_num :: int
  pr_probe_id :: byte
  main_phase_params :: "int list"
  auxiliary_params :: "(int \<times> bool) list"
  pr_bcc :: byte
  pr_raw_response :: bytes

definition pr_parse_response :: "bytes \<Rightarrow> int \<Rightarrow> pr_parsed" where
  "pr_parse_response response probe_num =
     (let p_values = take 17 (drop 3 response)
      in \<lparr>pr_probe_num = probe_num,
          pr_probe_id = response ! 2,
          main_phase_params = map (\<lambda>i. uint (p_values ! i)) [0 ..< 12],
          auxiliary_params =
            map (\<lambda>i. (uint (p_values ! i),
                       uint (p_values ! i) = DEFAULT_AUX_VALUES ! (i - 12))) [12 ..< 17],
          pr_bcc = response ! 20,
          pr_raw_response = response\<rparr>)"

definition pr_query_attempt ::
  "'s device \<Rightarrow> bytes \<Rightarrow> int \<Rightarrow> nat \<Rightarrow> 's port \<Rightarrow> pr_parsed option \<times> 's port" where
  "pr_query_attempt d command probe_num attempt p =
     (case port_reset_input_buffer d p of
        (Raises, p1) \<Rightarrow> (None, p1)
      | (Returns u, p1) \<Rightarrow>
     (case port_write d command p1 of
        (Raises, p2) \<Rightarrow> (None, p2)
      | (Returns bytes_sent, p2) \<Rightarrow>
     (case port_flush d p2 of
        (Raises, p3) \<Rightarrow> (None, p3)
      | (Returns u', p3) \<Rightarrow>
          if bytes_sent \<noteq> length command then (None, p3)
          else
     (case port_read d PR_EXPECTED_RESPONSE_LENGTH p3 of
        (Raises, p4) \<Rightarrow> (None, p4)
      | (Returns response, p4) \<Rightarrow>
          if length response = PR_EXPECTED_RESPONSE_LENGTH then
            (case pr_validate_response response probe_num of
               Inl e \<Rightarrow> (None, p4)
             | Inr valid \<Rightarrow>
                 if valid then (Some (pr_parse_response response probe_num), p4)
                 else (None, p4))
          else (None, p4)))))"

fun pr_query_attempts ::
  "'s device \<Rightarrow> bytes \<Rightarrow> int \<Rightarrow> nat list \<Rightarrow> 's port \<Rightarrow> pr_parsed option \<times> 's port" where
  "pr_query_attempts d command probe_num [] p = (None, p)"
| "pr_query_attempts d command probe_num (attempt # rest) p =
     (case pr_query_attempt d command probe_num attempt p of
        (Some r, p') \<Rightarrow> (Some r, p')
      | (None, p') \<Rightarrow> pr_query_attempts d command probe_num rest p')"

definition pr_query_probe ::
  "'s device \<Rightarrow> int \<Rightarrow> int \<Rightarrow> 's port \<Rightarrow> (py_error + pr_parsed option) \<times> 's port" where
  "pr_query_probe d probe_num max_retries p =
     (case pr_create_query_command probe_num of
        Inl e \<Rightarrow> (Inl e, p)
      | Inr command \<Rightarrow>
          (case pr_query_attempts d command probe_num [0 ..< nat max_retries] p of
             (r, p') \<Rightarrow> (Inr r, p')))"

section \<open>The write loop of both setters\<close>

text \<open>
  \<open>set_probe_params\<close> (ks236\_energy\_set.py) and \<open>set_probe_p_values\<close>
  (ks236\_p\_set.py) send \<open>full_command\<close> with the same loop, statement for
  statement. One pass of its body: \<open>Some b\<close> is \<open>return b\<close>, \<open>None\<close> goes on to
  the next attempt. After the loop both functions return \<open>False\<close>.
\<close>

definition write_attempt ::
  "'s device \<Rightarrow> bytes \<Rightarrow> nat \<Rightarrow> 's port \<Rightarrow> bool option \<times> 's port" where
  "write_attempt d full_command attempt p =
     (case port_reset_input_buffer d p of
        (Raises, p1) \<Rightarrow> (None, p1)
      | (Returns u, p1) \<Rightarrow>
     (case port_write d full_command p1 of
        (Raises, p2) \<Rightarrow> (None, p2)
      | (Returns bytes_sent, p2) \<Rightarrow>
     (case port_flush d p2 of
        (Raises, p3) \<Rightarrow> (None, p3)
      | (Returns u', p3) \<Rightarrow>
          if bytes_sent \<noteq> length full_command then (None, p3)
          else
     (case port_read d 5 p3 of
        (Raises, p4) \<Rightarrow> (None, p4)
      | (Returns response, p4) \<Rightarrow>
          if length response \<ge> 5 then
            if response ! 0 = ADDR_CODE \<and> response ! 1 = CMD_CODE then
              (let status = response ! 3
               in if status = 0x00 then (Some True, p4)
                  else if status = 0x02 then (Some False, p4)
                  else if status = 0xFF then (Some False, p4)
                  else (None, p4))
            else (None, p4)
          else (None, p4)))))"

fun write_attempts :: "'s device \<Rightarrow> bytes \<Rightarrow> nat list \<Rightarrow> 's port \<Rightarrow> bool \<times> 's port" where
  "write_attempts d full_command [] p = (False, p)"
| "write_attempts d full_command (attempt # rest) p =
     (case write_attempt d full_command attempt p of
        (Some b, p') \<Rightarrow> (b, p')
      | (None, p') \<Rightarrow> write_attempts d full_command rest p')"

section \<open>KS236EnergySetter (ks236\_energy\_set.py)\<close>

definition ES_PROBE_TEMP_PARAMS :: "int \<rightharpoonup> byte" where
  "ES_PROBE_TEMP_PARAMS = map_of
     [(1, 0xB1), (2, 0xB2), (3, 0xB3), (4, 0xB4), (5, 0xB5),
      (6, 0xB6), (7, 0xB7), (8, 0xB8), (9, 0xB9), (10, 0xBA),
      (11, 0xBB), (12, 0xBC)]"

definition ES_PROBE_PERM_PARAMS :: "int \<rightharpoonup> byte" where
  "ES_PROBE_PERM_PARAMS = map_of
     [(1, 0x71), (2, 0x72), (3, 0x73), (4, 0x74), (5, 0x75),
      (6, 0x76), (7, 0x77), (8, 0x78), (9, 0x79), (10, 0x7A),
      (11, 0x7B), (12, 0x7C)]"

definition ES_PROBE_QUERY_PARAMS :: "int \<rightharpoonup> byte" where
  "ES_PROBE_QUERY_PARAMS = map_of
     [(1, 0xD1), (2, 0xD2), (3, 0xD3), (4, 0xD4), (5, 0xD5),
      (6, 0xD6), (7, 0xD7), (8, 0xD8), (9, 0xD9), (10, 0xDA),
      (11, 0xDB), (12, 0xDC)]"

definition FIXED_PARAMS :: "byte \<times> byte" where
  "FIXED_PARAMS = (0x2C, 0x40)"

text \<open>
  \<open>range_m\<close> is a float compared with the keys 2.5, 1.5 and 6.5 of \<open>RANGE_NAMES\<close>,
  all exact in binary; any other value is \<open>ROther\<close>.
\<close>

datatype range_m = R2_5 | R1_5 | R6_5 | ROther

text \<open>The dictionary of nine integers that \<open>read_probe_params\<close> returns.\<close>

record energy_params =
  energy1 :: int
  time1 :: int
  threshold1 :: int
  energy2 :: int
  time2 :: int
  threshold2 :: int
  energy3 :: int
  time3 :: int
  threshold3 :: int

text \<open>
  \<open>read_probe_params\<close>: one exchange, no retry; every exception is caught and
  gives \<open>None\<close>. The count returned by \<open>write\<close> is not looked at.
\<close>

definition es_read_probe_params ::
  "'s device \<Rightarrow> int \<Rightarrow> 's port \<Rightarrow> energy_params option \<times> 's port" where
  "es_read_probe_params d probe_num p =
     (case ES_PROBE_QUERY_PARAMS probe_num of
        None \<Rightarrow> (None, p)
      | Some param \<Rightarrow>
          (let bcc = (ADDR_CODE XOR CMD_CODE) XOR param;
               command = [ADDR_CODE, CMD_CODE, param, bcc]
           in
     (case port_reset_input_buffer d p of
        (Raises, p1) \<Rightarrow> (None, p1)
      | (Returns u, p1) \<Rightarrow>
     (case port_write d command p1 of
        (Raises, p2) \<Rightarrow> (None, p2)
      | (Returns bytes_sent, p2) \<Rightarrow>
     (case port_flush d p2 of
        (Raises, p3) \<Rightarrow> (None, p3)
      | (Returns u', p3) \<Rightarrow>
     (case port_read d 15 p3 of
        (Raises, p4) \<Rightarrow> (None, p4)
      | (Returns response, p4) \<Rightarrow>
          if length response = 15
             \<and> response ! 0 = ADDR_CODE \<and> response ! 1 = CMD_CODE
          then (Some \<lparr>energy1 = uint (response ! 3), time1 = uint (response ! 4),
                      threshold1 = uint (response ! 5),
                      energy2 = uint (response ! 6), time2 = uint (response ! 7),
                      threshold2 = uint (response ! 8),
                      energy3 = uint (response ! 9), time3 = uint (response ! 10),
                      threshold3 = uint (response ! 11)\<rparr>, p4)
          else (None, p4)))))))"

text \<open>
  The 15-byte write frame. \<open>bytes([...])\<close> takes integers from 0 to 255; the frame
  is only built after the range checks, so \<open>word_of_int\<close> converts exactly.
\<close>

definition es_full_command ::
  "byte \<Rightarrow> int \<Rightarrow> int \<Rightarrow> int \<Rightarrow> int \<Rightarrow> int \<Rightarrow> int \<Rightarrow> int \<Rightarrow> int \<Rightarrow> int \<Rightarrow> bytes" where
  "es_full_command param1 e1 t1 th1 e2 t2 th2 e3 t3 th3 =
     (let command =
            [ADDR_CODE, CMD_CODE, param1,
             word_of_int e1, word_of_int t1, word_of_int th1,
             word_of_int e2, word_of_int t2, word_of_int th2,
             word_of_int e3, word_of_int t3, word_of_int th3,
             fst FIXED_PARAMS, snd FIXED_PARAMS];
          bcc = calculate_bcc command
      in command @ [bcc])"

text \<open>
  \<open>set_probe_params\<close>; the nine parameters \<open>energy1\<close> ... \<open>threshold3\<close> are
  written \<open>e1 t1 th1 ... th3\<close>. \<open>probe_params[probe_num]\<close> raises \<open>KeyError\<close> for
  a missing key, and nothing in the function catches it.
\<close>

definition es_set_probe_params ::
  "'s device \<Rightarrow> int \<Rightarrow> int \<Rightarrow> int \<Rightarrow> int \<Rightarrow> int \<Rightarrow> int \<Rightarrow> int \<Rightarrow> int \<Rightarrow> int \<Rightarrow> int
     \<Rightarrow> bool \<Rightarrow> int \<Rightarrow> 's port \<Rightarrow> (py_error + bool) \<times> 's port" where
  "es_set_probe_params d probe_num e1 t1 th1 e2 t2 th2 e3 t3 th3 permanent max_retries p =
     (if ES_PROBE_TEMP_PARAMS probe_num = None then (Inr False, p)
      else if \<not> (0 \<le> e1 \<and> e1 \<le> 7 \<and> 0 \<le> e2 \<and> e2 \<le> 7 \<and> 0 \<le> e3 \<and> e3 \<le> 7)
        then (Inr False, p)
      else if \<not> (0 \<le> t1 \<and> t1 \<le> 7 \<and> 0 \<le> t2 \<and> t2 \<le> 7 \<and> 0 \<le> t3 \<and> t3 \<le> 7)
        then (Inr False, p)
      else if \<not> (0 \<le> th1 \<and> th1 \<le> 3 \<and> 0 \<le> th2 \<and> th2 \<le> 3 \<and> 0 \<le> th3 \<and> th3 \<le> 3)
        then (Inr False, p)
      else
        (let probe_params = (if permanent then ES_PROBE_PERM_PARAMS else ES_PROBE_TEMP_PARAMS)
         in case probe_params probe_num of
              None \<Rightarrow> (Inl KeyError, p)
            | Some param1 \<Rightarrow>
                (let full_command = es_full_command param1 e1 t1 th1 e2 t2 th2 e3 t3 th3
                 in case write_attempts d full_command [0 ..< nat max_retries] p of
                      (b, p') \<Rightarrow> (Inr b, p'))))"

text \<open>Lines 299 to 319 of \<open>set_range_energy\<close>: the copy of \<open>current\<close> with the
  requested range overlaid.\<close>

definition es_new_params ::
  "energy_params \<Rightarrow> range_m \<Rightarrow> int \<Rightarrow> int option \<Rightarrow> int option \<Rightarrow> energy_params" where
  "es_new_params current rm energy_val time_val threshold_val =
     (if rm = R2_5 then
        (let n1 = current\<lparr>energy1 := energy_val\<rparr>;
             n2 = (case time_val of None \<Rightarrow> n1 | Some v \<Rightarrow> n1\<lparr>time1 := v\<rparr>)
         in (case threshold_val of None \<Rightarrow> n2 | Some v \<Rightarrow> n2\<lparr>threshold1 := v\<rparr>))
      else if rm = R1_5 then
        (let n1 = current\<lparr>energy2 := energy_val\<rparr>;
             n2 = (case time_val of None \<Rightarrow> n1 | Some v \<Rightarrow> n1\<lparr>time2 := v\<rparr>)
         in (case threshold_val of None \<Rightarrow> n2 | Some v \<Rightarrow> n2\<lparr>threshold2 := v\<rparr>))
      else if rm = R6_5 then
        (let n1 = current\<lparr>energy3 := energy_val\<rparr>;
             n2 = (case time_val of None \<Rightarrow> n1 | Some v \<Rightarrow> n1\<lparr>time3 := v\<rparr>)
         in (case threshold_val of None \<Rightarrow> n2 | Some v \<Rightarrow> n2\<lparr>threshold3 := v\<rparr>))
      else current)"

text \<open>
  Lines 332 to 360, applied to the outcome of \<open>set_probe_params\<close>: an exception
  of the write leaves \<open>set_range_energy\<close>; otherwise \<open>success\<close> is its result
  and the verification follows.
\<close>

definition es_verify ::
  "'s device \<Rightarrow> int \<Rightarrow> range_m \<Rightarrow> int \<Rightarrow> bool \<Rightarrow> (py_error + bool) \<times> 's port
     \<Rightarrow> (py_error + bool) \<times> 's port" where
  "es_verify d probe_num rm energy_val verify written =
     (case written of
        (Inl e, p) \<Rightarrow> (Inl e, p)
      | (Inr success, p) \<Rightarrow>
          if success \<and> verify then
            (case es_read_probe_params d probe_num p of
               (Some updated, p') \<Rightarrow>
                 if rm = R2_5 \<and> energy1 updated = energy_val then (Inr True, p')
                 else if rm = R1_5 \<and> energy2 updated = energy_val then (Inr True, p')
                 else if rm = R6_5 \<and> energy3 updated = energy_val then (Inr True, p')
                 else (Inr False, p')
             | (None, p') \<Rightarrow> (Inr success, p'))
          else (Inr success, p))"

text \<open>
  \<open>set_range_energy\<close>. The two dictionaries returned by \<open>read_probe_params\<close>
  always hold nine keys, so \<open>if not current\<close> and \<open>if updated\<close> test for \<open>None\<close>.
  \<open>set_probe_params\<close> is called with its default budget of 3.
\<close>

definition es_set_range_energy ::
  "'s device \<Rightarrow> int \<Rightarrow> range_m \<Rightarrow> int \<Rightarrow> int option \<Rightarrow> int option \<Rightarrow> bool \<Rightarrow> bool
     \<Rightarrow> 's port \<Rightarrow> (py_error + bool) \<times> 's port" where
  "es_set_range_energy d probe_num rm energy_val time_val threshold_val permanent verify p =
     (if rm = ROther then (Inr False, p)
      else
        (case es_read_probe_params d probe_num p of
           (None, p1) \<Rightarrow> (Inr False, p1)
         | (Some current, p1) \<Rightarrow>
             (let new_params = es_new_params current rm energy_val time_val threshold_val
              in es_verify d probe_num rm energy_val verify
                   (es_set_probe_params d probe_num
                      (energy1 new_params) (time1 new_params) (threshold1 new_params)
                      (energy2 new_params) (time2 new_params) (threshold2 new_params)
                      (energy3 new_params) (time3 new_params) (threshold3 new_params)
                      permanent 3 p1))))"

section \<open>KS236PValueSetter (ks236\_p\_set.py)\<close>

definition PS_PROBE_TEMP_PARAMS :: "int \<rightharpoonup> byte" where
  "PS_PROBE_TEMP_PARAMS = map_of
     [(1, 0xC1), (2, 0xC2), (3, 0xC3), (4, 0xC4), (5, 0xC5),
      (6, 0xC6), (7, 0xC7), (8, 0xC8), (9, 0xC9)]"

definition PS_PROBE_PERM_PARAMS :: "int \<rightharpoonup> byte" where
  "PS_PROBE_PERM_PARAMS = map_of
     [(1, 0x81), (2, 0x82), (3, 0x83), (4, 0x84), (5, 0x85),
      (6, 0x86), (7, 0x87), (8, 0x88), (9, 0x89)]"

definition PS_PROBE_QUERY_PARAMS :: "int \<rightharpoonup> byte" where
  "PS_PROBE_QUERY_PARAMS = map_of
     [(1, 0xE1), (2, 0xE2), (3, 0xE3), (4, 0xE4), (5, 0xE5),
      (6, 0xE6), (7, 0xE7), (8, 0xE8), (9, 0xE9)]"

definition P_DESCRIPTIONS :: "string \<rightharpoonup> string" where
  "P_DESCRIPTIONS = map_of
     [(''P1'', ''22.5 ~ 42.5 cm''), (''P2'', ''42.5 ~ 59.5 cm''),
      (''P3'', ''59.5 ~ 76.5 cm''), (''P4'', ''76.5 ~ 110 cm''),
      (''P5'', ''110 ~ 144 cm''), (''P6'', ''144 ~ 178 cm''),
      (''P7'', ''178 ~ 212 cm''), (''P8'', ''212 ~ 246 cm''),
      (''P9'', ''246 ~ 280 cm''), (''P10'', ''280 ~ 348 cm''),
      (''P11'', ''348 ~ 416 cm''), (''P12'', ''416 cm+''),
      (''P13'', ''Auxiliary param 13''), (''P14'', ''Auxiliary param 14''),
      (''P15'', ''Auxiliary param 15''), (''P16'', ''Auxiliary param 16''),
      (''P17'', ''Auxiliary param 17'')]"

text \<open>The \<open>values\<close> entry of each preset; its display name and description are
  left out.\<close>

definition BEAM_PRESETS :: "string \<rightharpoonup> int list" where
  "BEAM_PRESETS = map_of
     [(''narrow'', [31, 31, 31, 30, 26, 21, 16, 16, 13, 0, 0, 0, 0, 3, 1, 0, 1]),
      (''medium'', [24, 24, 23, 21, 18, 13, 10, 10, 6, 0, 0, 0, 0, 3, 1, 0, 1]),
      (''wide'', [15, 15, 15, 15, 10, 10, 5, 5, 0, 0, 0, 0, 0, 3, 1, 0, 1]),
      (''ultra_wide'', [10, 10, 7, 7, 6, 3, 2, 0, 0, 0, 0, 0, 0, 3, 1, 0, 1]),
      (''default'', [19, 19, 19, 31, 31, 31, 31, 31, 31, 31, 31, 31, 0, 3, 1, 0, 1])]"

text \<open>
  \<open>read_probe_p_values\<close>: one exchange, no retry; \<open>list(response[3:20])\<close> is the
  17 data bytes as integers.
\<close>

definition ps_read_probe_p_values ::
  "'s device \<Rightarrow> int \<Rightarrow> 's port \<Rightarrow> int list option \<times> 's port" where
  "ps_read_probe_p_values d probe_num p =
     (case PS_PROBE_QUERY_PARAMS probe_num of
        None \<Rightarrow> (None, p)
      | Some param \<Rightarrow>
          (let bcc = (ADDR_CODE XOR CMD_CODE) XOR param;
               command = [ADDR_CODE, CMD_CODE, param, bcc]
           in
     (case port_reset_input_buffer d p of
        (Raises, p1) \<Rightarrow> (None, p1)
      | (Returns u, p1) \<Rightarrow>
     (case port_write d command p1 of
        (Raises, p2) \<Rightarrow> (None, p2)
      | (Returns bytes_sent, p2) \<Rightarrow>
     (case port_flush d p2 of
        (Raises, p3) \<Rightarrow> (None, p3)
      | (Returns u', p3) \<Rightarrow>
     (case port_read d 21 p3 of
        (Raises, p4) \<Rightarrow> (None, p4)
      | (Returns response, p4) \<Rightarrow>
          if length response = 21
             \<and> response ! 0 = ADDR_CODE \<and> response ! 1 = CMD_CODE
             \<and> response ! 20 = calculate_bcc (butlast response)
          then (Some (map uint (take 17 (drop 3 response))), p4)
          else (None, p4)))))))"

text \<open>The 21-byte write frame (for 17 values), built after the range checks.\<close>

definition ps_full_command :: "byte \<Rightarrow> int list \<Rightarrow> bytes" where
  "ps_full_command param1 p_values =
     (let command = [ADDR_CODE, CMD_CODE, param1] @ map word_of_int p_values;
          bcc = calculate_bcc command
      in command @ [bcc])"

definition ps_set_probe_p_values ::
  "'s device \<Rightarrow> int \<Rightarrow> int list \<Rightarrow> bool \<Rightarrow> int \<Rightarrow> 's port \<Rightarrow> (py_error + bool) \<times> 's port" where
  "ps_set_probe_p_values d probe_num p_values permanent max_retries p =
     (if PS_PROBE_TEMP_PARAMS probe_num = None then (Inr False, p)
      else if length p_values \<noteq> 17 then (Inr False, p)
      else if \<not> list_all (\<lambda>p_val. 0 \<le> p_val \<and> p_val \<le> 31) p_values then (Inr False, p)
      else
        (let probe_params = (if permanent then PS_PROBE_PERM_PARAMS else PS_PROBE_TEMP_PARAMS)
         in case probe_params probe_num of
              None \<Rightarrow> (Inl KeyError, p)
            | Some param1 \<Rightarrow>
                (let full_command = ps_full_command param1 p_values
                 in case write_attempts d full_command [0 ..< nat max_retries] p of
                      (b, p') \<Rightarrow> (Inr b, p'))))"

text \<open>
  \<open>int(s)\<close> on a string of decimal digits; anything else is a \<open>ValueError\<close> here.
  It is only applied to the tail of a key of \<open>P_DESCRIPTIONS\<close>.
\<close>

definition digit_val :: "char \<Rightarrow> int option" where
  "digit_val c =
     (let n = (of_char c :: nat)
      in if 48 \<le> n \<and> n \<le> 57 then Some (int n - 48) else None)"

fun int_loop :: "int \<Rightarrow> string \<Rightarrow> py_error + int" where
  "int_loop acc [] = Inr acc"
| "int_loop acc (c # cs) =
     (case digit_val c of
        None \<Rightarrow> Inl ValueError
      | Some v \<Rightarrow> int_loop (10 * acc + v) cs)"

definition py_int :: "string \<Rightarrow> py_error + int" where
  "py_int s = (if s = [] then Inl ValueError else int_loop 0 s)"

text \<open>
  Python's \<open>xs[i]\<close>: an index from \<open>-len(xs)\<close> up to \<open>-1\<close> counts from the
  end, and an index outside \<open>-len(xs) .. len(xs) - 1\<close> raises \<open>IndexError\<close>.
\<close>

definition py_index :: "'a list \<Rightarrow> int \<Rightarrow> py_error + 'a" where
  "py_index xs i =
     (if 0 \<le> i \<and> i < int (length xs) then Inr (xs ! nat i)
      else if i < 0 \<and> - int (length xs) \<le> i then Inr (xs ! nat (int (length xs) + i))
      else Inl IndexError)"

text \<open>
  The loop \<open>for p_name, p_value in p_updates.items()\<close> of
  \<open>set_individual_p_values\<close>, over the items in dictionary order: \<open>Inr None\<close> is
  one of its \<open>return False\<close>, \<open>Inr (Some new_values)\<close> the list after the loop.
\<close>

fun ps_apply_updates :: "int list \<Rightarrow> (string \<times> int) list \<Rightarrow> py_error + int list option" where
  "ps_apply_updates new_values [] = Inr (Some new_values)"
| "ps_apply_updates new_values ((p_name, p_value) # rest) =
     (if P_DESCRIPTIONS p_name = None then Inr None
      else (case py_int (drop 1 p_name) of
              Inl e \<Rightarrow> Inl e
            | Inr n \<Rightarrow>
                (let p_index = n - 1
                 in if \<not> (0 \<le> p_index \<and> p_index \<le> 16) then Inr None
                    else if \<not> (0 \<le> p_value \<and> p_value \<le> 31) then Inr None
                    else (case py_index new_values p_index of
                            Inl e \<Rightarrow> Inl e
                          | Inr old_value \<Rightarrow>
                              ps_apply_updates (new_values[nat p_index := p_value]) rest))))"

text \<open>The verification loop: \<open>all_correct\<close> after comparing every update.\<close>

fun ps_all_correct :: "int list \<Rightarrow> (string \<times> int) list \<Rightarrow> py_error + bool" where
  "ps_all_correct updated_values [] = Inr True"
| "ps_all_correct updated_values ((p_name, expected_value) # rest) =
     (case py_int (drop 1 p_name) of
        Inl e \<Rightarrow> Inl e
      | Inr n \<Rightarrow>
          (case py_index updated_values (n - 1) of
             Inl e \<Rightarrow> Inl e
           | Inr actual_value \<Rightarrow>
               (case ps_all_correct updated_values rest of
                  Inl e \<Rightarrow> Inl e
                | Inr ok \<Rightarrow> Inr (actual_value = expected_value \<and> ok))))"

text \<open>
  Lines 344 to 371, applied to the outcome of \<open>set_probe_p_values\<close>. A list is
  true in Python when it is not empty.
\<close>

definition ps_verify_updates ::
  "'s device \<Rightarrow> int \<Rightarrow> (string \<times> int) list \<Rightarrow> bool \<Rightarrow> (py_error + bool) \<times> 's port
     \<Rightarrow> (py_error + bool) \<times> 's port" where
  "ps_verify_updates d probe_num p_updates verify written =
     (case written of
        (Inl e, p) \<Rightarrow> (Inl e, p)
      | (Inr success, p) \<Rightarrow>
          if success \<and> verify then
            (case ps_read_probe_p_values d probe_num p of
               (Some updated_values, p') \<Rightarrow>
                 if updated_values \<noteq> [] then
                   (case ps_all_correct updated_values p_updates of
                      Inl e \<Rightarrow> (Inl e, p')
                    | Inr all_correct \<Rightarrow> (Inr all_correct, p'))
                 else (Inr success, p')
             | (None, p') \<Rightarrow> (Inr success, p'))
          else (Inr success, p))"

definition ps_set_individual_p_values ::
  "'s device \<Rightarrow> int \<Rightarrow> (string \<times> int) list \<Rightarrow> bool \<Rightarrow> bool \<Rightarrow> 's port
     \<Rightarrow> (py_error + bool) \<times> 's port" where
  "ps_set_individual_p_values d probe_num p_updates permanent verify p =
     (case ps_read_probe_p_values d probe_num p of
        (None, p1) \<Rightarrow> (Inr False, p1)
      | (Some current_values, p1) \<Rightarrow>
          if current_values = [] then (Inr False, p1)
          else
            (case ps_apply_updates current_values p_updates of
               Inl e \<Rightarrow> (Inl e, p1)
             | Inr None \<Rightarrow> (Inr False, p1)
             | Inr (Some new_values) \<Rightarrow>
                 ps_verify_updates d probe_num p_updates verify
                   (ps_set_probe_p_values d probe_num new_values permanent 3 p1)))"

definition ps_apply_preset ::
  "'s device \<Rightarrow> int \<Rightarrow> string \<Rightarrow> bool \<Rightarrow> bool \<Rightarrow> 's port \<Rightarrow> (py_error + bool) \<times> 's port" where
  "ps_apply_preset d probe_num preset_name permanent verify p =
     (case BEAM_PRESETS preset_name of
        None \<Rightarrow> (Inr False, p)
      | Some preset_values \<Rightarrow>
          (case ps_set_probe_p_values d probe_num preset_values permanent 3 p of
             (Inl e, p1) \<Rightarrow> (Inl e, p1)
           | (Inr success, p1) \<Rightarrow>
               if success \<and> verify then
                 (case ps_read_probe_p_values d probe_num p1 of
                    (Some updated_values, p2) \<Rightarrow>
                      if updated_values \<noteq> [] then
                        (if updated_values = preset_values then (Inr True, p2)
                         else (Inr False, p2))
                      else (Inr success, p2)
                  | (None, p2) \<Rightarrow> (Inr success, p2))
               else (Inr success, p1)))"

section \<open>Vocabulary of the statements\<close>


text \<open>The name of the P-value at each index of a profile.\<close>

definition P_NAMES :: "string list" where
  "P_NAMES = [''P1'', ''P2'', ''P3'', ''P4'', ''P5'', ''P6'', ''P7'', ''P8'', ''P9'',
              ''P10'', ''P11'', ''P12'', ''P13'', ''P14'', ''P15'', ''P16'', ''P17'']"

text \<open>A P-value profile with the requested elements overlaid.\<close>

definition overlay :: "int list \<Rightarrow> (string \<times> int) list \<Rightarrow> int list" where
  "overlay current p_updates =
     map (\<lambda>i. case map_of p_updates (P_NAMES ! i) of
                 None \<Rightarrow> current ! i
               | Some v \<Rightarrow> v) [0 ..< 17]"

subsection \<open>Devices used in the examples\<close>

text \<open>
  A scripted device: every write is accepted in full, and each read delivers the
  next frame of the script (nothing once the script is exhausted).
\<close>

definition scripted :: "(bytes list) device" where
  "scripted =
     \<lparr>dev_reset_input_buffer = (\<lambda>s. (Returns (), s)),
      dev_write = (\<lambda>data s. (Returns (length data), s)),
      dev_flush = (\<lambda>s. (Returns (), s)),
      dev_read = (\<lambda>n s. case s of [] \<Rightarrow> (Returns [], []) | r # rs \<Rightarrow> (Returns r, rs))\<rparr>"

text \<open>A device that accepts every write and never answers.\<close>

definition silent :: "unit device" where
  "silent =
     \<lparr>dev_reset_input_buffer = (\<lambda>s. (Returns (), s)),
      dev_write = (\<lambda>data s. (Returns (length data), s)),
      dev_flush = (\<lambda>s. (Returns (), s)),
      dev_read = (\<lambda>n s. (Returns [], s))\<rparr>"

definition start :: "'s \<Rightarrow> 's port" where
  "start s = \<lparr>dev_state = s, trace = []\<rparr>"

text \<open>
  The response of the probe 3 scenario: fourteen given bytes followed by their
  XOR.
\<close>

definition scenario_frame :: bytes where
  "scenario_frame =
     [0xE8, 0x99, 0xD3, 0x02, 0x02, 0x02, 0x01, 0x00, 0x02, 0x05, 0x06, 0x02, 0x2C, 0x40]
     @ [xor_fold [0xE8, 0x99, 0xD3, 0x02, 0x02, 0x02, 0x01, 0x00, 0x02, 0x05, 0x06, 0x02,
                  0x2C, 0x40]]"

text \<open>
  A full-length energy response for probe 3 with a correct header and a wrong
  checksum byte, and a 21-byte P-value response for probe 1 of the same kind.
\<close>

definition bad_checksum_frame :: bytes where
  "bad_checksum_frame =
     [0xE8, 0x99, 0xD3, 0x02, 0x02, 0x02, 0x01, 0x00, 0x02, 0x05, 0x06, 0x02, 0x2C, 0x40, 0x00]"

definition bad_checksum_p_frame :: bytes where
  "bad_checksum_p_frame =
     [0xE8, 0x99, 0xE1, 31, 31, 31, 30, 26, 21, 16, 16, 13, 0, 0, 0, 0, 3, 1, 0, 1, 0x00]"

text \<open>
  Frames of the examples: energy responses of probe 1 (the current profile, and a
  re-read whose first energy is 2 and whose first time is 7), P-value responses of
  probe 1 (the default profile, a re-read with P1 = 15 and P6 = 0, the narrow
  preset, and the narrow preset with its last value changed), and the two
  acknowledgements of a successful write.
\<close>

definition current_frame :: bytes where
  "current_frame = [0xE8, 0x99, 0xD1, 3, 2, 2, 1, 0, 2, 5, 6, 2, 0x2C, 0x40, 0xCD]"

definition reread_frame :: bytes where
  "reread_frame = [0xE8, 0x99, 0xD1, 2, 7, 2, 1, 0, 2, 5, 6, 2, 0x2C, 0x40, 0xC9]"

definition ack_ok :: bytes where
  "ack_ok = [0xE8, 0x99, 0xB1, 0x00, 0xC0]"

definition p_current_frame :: bytes where
  "p_current_frame = [0xE8, 0x99, 0xE1, 19, 19, 19, 31, 31, 31, 31, 31, 31, 31, 31, 31, 0, 3, 1, 0, 1, 0x9F]"

definition p_reread_frame :: bytes where
  "p_reread_frame = [0xE8, 0x99, 0xE1, 15, 19, 19, 31, 31, 0, 31, 31, 31, 31, 31, 31, 0, 3, 1, 0, 1, 0x9C]"

definition p_ack_ok :: bytes where
  "p_ack_ok = [0xE8, 0x99, 0xC1, 0x00, 0xB0]"

definition narrow_frame :: bytes where
  "narrow_frame = [0xE8, 0x99, 0xE1, 31, 31, 31, 30, 26, 21, 16, 16, 13, 0, 0, 0, 0, 3, 1, 0, 1, 0x90]"

definition narrow_off_frame :: bytes where
  "narrow_off_frame = [0xE8, 0x99, 0xE1, 31, 31, 31, 30, 26, 21, 16, 16, 13, 0, 0, 0, 0, 3, 1, 0, 0, 0x91]"

section \<open>Shared lemmas\<close>

lemma bcc_loop_foldl: "bcc_loop acc xs = foldl (XOR) acc xs"
  by (induction xs arbitrary: acc) simp_all

lemma calculate_bcc_foldl: "calculate_bcc xs = foldl (XOR) 0 xs"
  by (simp add: calculate_bcc_def bcc_loop_foldl)

lemma calculate_bcc_xor_fold: "seq \<noteq> [] \<Longrightarrow> calculate_bcc seq = xor_fold seq"
  by (cases seq) (simp_all add: calculate_bcc_foldl xor_fold_def)

lemma butlast_bcc:
  "length response = Suc (Suc n) \<Longrightarrow>
     calculate_bcc (butlast response) = xor_fold (butlast response)"
  by (rule calculate_bcc_xor_fold) (auto simp: butlast_conv_take)

lemmas port_defs =
  port_reset_input_buffer_def port_write_def port_flush_def port_read_def

lemma scenario_frame_eq:
  "scenario_frame =
     [0xE8, 0x99, 0xD3, 0x02, 0x02, 0x02, 0x01, 0x00, 0x02, 0x05, 0x06, 0x02, 0x2C, 0x40, 0xCE]"
  by (simp add: scenario_frame_def xor_fold_def)

lemma writes_reset: "port_reset_input_buffer d p = (r, p') \<Longrightarrow> writes p' = writes p"
  by (auto simp: port_reset_input_buffer_def writes_def split: prod.splits)

lemma writes_flush: "port_flush d p = (r, p') \<Longrightarrow> writes p' = writes p"
  by (auto simp: port_flush_def writes_def split: prod.splits)

lemma writes_read: "port_read d n p = (r, p') \<Longrightarrow> writes p' = writes p"
  by (auto simp: port_read_def writes_def split: prod.splits)

lemma writes_write: "port_write d c p = (r, p') \<Longrightarrow> writes p' = Suc (writes p)"
  by (auto simp: port_write_def writes_def split: prod.splits)

lemma reset_ok:
  "\<forall>s. fst (dev_reset_input_buffer d s) = Returns () \<Longrightarrow>
     \<exists>p'. port_reset_input_buffer d p = (Returns (), p')"
  by (auto simp: port_reset_input_buffer_def split: prod.splits) (metis fst_conv)

lemma read_empty:
  "\<forall>n s. fst (dev_read d n s) = Returns [] \<Longrightarrow> \<exists>p'. port_read d n p = (Returns [], p')"
  by (auto simp: port_read_def split: prod.splits outcome.splits)
    (metis fst_conv outcome.inject outcome.distinct take_Nil)+











text \<open>Both query engines against a device whose reads are always empty.\<close>

lemma er_attempt_silent:
  assumes rd: "\<forall>n s. fst (dev_read d n s) = Returns []"
      and rs: "\<forall>s. fst (dev_reset_input_buffer d s) = Returns ()"
  shows "\<exists>p'. er_query_attempt d command pn attempt p = (None, p')
              \<and> writes p' = Suc (writes p)"
proof -
  obtain p1 where 1: "port_reset_input_buffer d p = (Returns (), p1)"
    using reset_ok [OF rs] by blast
  obtain r2 p2 where 2: "port_write d command p1 = (r2, p2)"
    by (cases "port_write d command p1")
  obtain r3 p3 where 3: "port_flush d p2 = (r3, p3)"
    by (cases "port_flush d p2")
  obtain p4 where 4: "port_read d ER_EXPECTED_RESPONSE_LENGTH p3 = (Returns [], p4)"
    using read_empty [OF rd] by blast
  have w: "writes p1 = writes p" "writes p2 = Suc (writes p1)" "writes p3 = writes p2"
    "writes p4 = writes p3"
    using writes_reset [OF 1] writes_write [OF 2] writes_flush [OF 3] writes_read [OF 4]
    by simp_all
  show ?thesis
    using 1 2 3 4 w
    by (cases r2; cases r3)
      (simp_all add: er_query_attempt_def ER_EXPECTED_RESPONSE_LENGTH_def)
qed

lemma er_attempts_silent:
  assumes rd: "\<forall>n s. fst (dev_read d n s) = Returns []"
      and rs: "\<forall>s. fst (dev_reset_input_buffer d s) = Returns ()"
  shows "\<exists>p'. er_query_attempts d command pn attempts p = (None, p')
              \<and> writes p' = writes p + length attempts"
proof (induction attempts arbitrary: p)
  case Nil
  then show ?case by simp
next
  case (Cons a attempts)
  obtain p1 where 1: "er_query_attempt d command pn a p = (None, p1)"
    "writes p1 = Suc (writes p)"
    using er_attempt_silent [OF rd rs] by blast
  obtain p2 where 2: "er_query_attempts d command pn attempts p1 = (None, p2)"
    "writes p2 = writes p1 + length attempts"
    using Cons.IH by blast
  show ?case using 1 2 by simp
qed

lemma pr_attempt_silent:
  assumes rd: "\<forall>n s. fst (dev_read d n s) = Returns []"
      and rs: "\<forall>s. fst (dev_reset_input_buffer d s) = Returns ()"
  shows "\<exists>p'. pr_query_attempt d command pn attempt p = (None, p')
              \<and> writes p' = Suc (writes p)"
proof -
  obtain p1 where 1: "port_reset_input_buffer d p = (Returns (), p1)"
    using reset_ok [OF rs] by blast
  obtain r2 p2 where 2: "port_write d command p1 = (r2, p2)"
    by (cases "port_write d command p1")
  obtain r3 p3 where 3: "port_flush d p2 = (r3, p3)"
    by (cases "port_flush d p2")
  obtain p4 where 4: "port_read d PR_EXPECTED_RESPONSE_LENGTH p3 = (Returns [], p4)"
    using read_empty [OF rd] by blast
  have w: "writes p1 = writes p" "writes p2 = Suc (writes p1)" "writes p3 = writes p2"
    "writes p4 = writes p3"
    using writes_reset [OF 1] writes_write [OF 2] writes_flush [OF 3] writes_read [OF 4]
    by simp_all
  show ?thesis
    using 1 2 3 4 w
    by (cases r2; cases r3)
      (simp_all add: pr_query_attempt_def PR_EXPECTED_RESPONSE_LENGTH_def)
qed

lemma pr_attempts_silent:
  assumes rd: "\<forall>n s. fst (dev_read d n s) = Returns []"
      and rs: "\<forall>s. fst (dev_reset_input_buffer d s) = Returns ()"
  shows "\<exists>p'. pr_query_attempts d command pn attempts p = (None, p')
              \<and> writes p' = writes p + length attempts"
proof (induction attempts arbitrary: p)
  case Nil
  then show ?case by simp
next
  case (Cons a attempts)
  obtain p1 where 1: "pr_query_attempt d command pn a p = (None, p1)"
    "writes p1 = Suc (writes p)"
    using pr_attempt_silent [OF rd rs] by blast
  obtain p2 where 2: "pr_query_attempts d command pn attempts p1 = (None, p2)"
    "writes p2 = writes p1 + length attempts"
    using Cons.IH by blast
  show ?case using 1 2 by simp
qed

text \<open>Evaluation on the scripted device.\<close>

lemmas frame_defs = current_frame_def reread_frame_def ack_ok_def p_current_frame_def
  p_reread_frame_def p_ack_ok_def narrow_frame_def narrow_off_frame_def

lemmas scripted_eval = port_defs scripted_def start_def ADDR_CODE_def CMD_CODE_def
  calculate_bcc_def Let_def upt_conv_Cons

lemmas es_eval = es_set_range_energy_def es_read_probe_params_def es_verify_def
  es_set_probe_params_def es_new_params_def es_full_command_def FIXED_PARAMS_def
  ES_PROBE_QUERY_PARAMS_def ES_PROBE_TEMP_PARAMS_def write_attempt_def

lemmas ps_eval = ps_read_probe_p_values_def ps_set_probe_p_values_def ps_full_command_def
  PS_PROBE_QUERY_PARAMS_def PS_PROBE_TEMP_PARAMS_def write_attempt_def

text \<open>The P-value names, the overlay and the two passes over the updates.\<close>

lemma ps_read_length:
  "ps_read_probe_p_values d pn p = (Some cur, p1) \<Longrightarrow> length cur = 17"
  by (auto simp: ps_read_probe_p_values_def Let_def
      split: option.splits prod.splits outcome.splits if_splits)

lemma P_NAMES_length: "length P_NAMES = 17"
  by (simp add: P_NAMES_def)

lemma P_NAMES_distinct: "distinct P_NAMES"
  by (simp add: P_NAMES_def)

lemma P_NAMES_index:
  "k < 17 \<Longrightarrow> P_DESCRIPTIONS (P_NAMES ! k) \<noteq> None
      \<and> py_int (drop 1 (P_NAMES ! k)) = Inr (int k + 1)"
proof -
  assume "k < 17"
  then have "k = 0 \<or> k = 1 \<or> k = 2 \<or> k = 3 \<or> k = 4 \<or> k = 5 \<or> k = 6 \<or> k = 7 \<or> k = 8
      \<or> k = 9 \<or> k = 10 \<or> k = 11 \<or> k = 12 \<or> k = 13 \<or> k = 14 \<or> k = 15 \<or> k = 16"
    by arith
  then show ?thesis
    by (elim disjE)
      (simp_all add: P_NAMES_def P_DESCRIPTIONS_def py_int_def digit_val_def)
qed

lemma P_NAMES_inj: "i < 17 \<Longrightarrow> k < 17 \<Longrightarrow> (P_NAMES ! i = P_NAMES ! k) = (i = k)"
  using P_NAMES_distinct P_NAMES_length by (simp add: nth_eq_iff_index_eq)

lemma overlay_length: "length (overlay cur upds) = 17"
  by (simp add: overlay_def)

lemma overlay_nth:
  "i < 17 \<Longrightarrow> overlay cur upds ! i =
     (case map_of upds (P_NAMES ! i) of None \<Rightarrow> cur ! i | Some v \<Rightarrow> v)"
  using nth_upt [of 0 i 17] by (simp add: overlay_def split: option.splits)

lemma overlay_Nil: "length cur = 17 \<Longrightarrow> overlay cur [] = cur"
  by (rule nth_equalityI) (simp_all add: overlay_length overlay_nth)

lemma overlay_Cons:
  assumes "length cur = 17" "k < 17" "P_NAMES ! k \<notin> fst ` set rest"
  shows "overlay (cur[k := v]) rest = overlay cur ((P_NAMES ! k, v) # rest)"
proof (rule nth_equalityI)
  show "length (overlay (cur[k := v]) rest) = length (overlay cur ((P_NAMES ! k, v) # rest))"
    by (simp add: overlay_length)
next
  fix i assume "i < length (overlay (cur[k := v]) rest)"
  then have i: "i < 17" by (simp add: overlay_length)
  have n: "map_of rest (P_NAMES ! k) = None"
    using assms(3) by (simp add: map_of_eq_None_iff)
  show "overlay (cur[k := v]) rest ! i = overlay cur ((P_NAMES ! k, v) # rest) ! i"
  proof (cases "i = k")
    case True
    then show ?thesis using i n assms(1) by (simp add: overlay_nth)
  next
    case False
    then have "P_NAMES ! i \<noteq> P_NAMES ! k" using P_NAMES_inj [OF i assms(2)] by simp
    then show ?thesis using i False by (simp add: overlay_nth split: option.splits)
  qed
qed

lemma ps_apply_updates_overlay:
  assumes "length cur = 17" "distinct (map fst upds)"
    "\<forall>(name, v) \<in> set upds. name \<in> set P_NAMES \<and> 0 \<le> v \<and> v \<le> 31"
  shows "ps_apply_updates cur upds = Inr (Some (overlay cur upds))"
  using assms
proof (induction upds arbitrary: cur)
  case Nil
  then show ?case by (simp add: overlay_Nil)
next
  case (Cons u upds)
  obtain name v where u: "u = (name, v)" by (cases u)
  have "name \<in> set P_NAMES" using Cons.prems(3) u by simp
  then obtain k where k: "k < 17" "name = P_NAMES ! k"
    using P_NAMES_length by (auto simp: in_set_conv_nth)
  have v: "0 \<le> v" "v \<le> 31" using Cons.prems(3) u by simp_all
  have d: "P_NAMES ! k \<notin> fst ` set upds" "distinct (map fst upds)"
    using Cons.prems(2) u k by simp_all
  have r: "\<forall>(name, v) \<in> set upds. name \<in> set P_NAMES \<and> 0 \<le> v \<and> v \<le> 31"
    using Cons.prems(3) by simp
  have l: "length (cur[k := v]) = 17" using Cons.prems(1) by simp
  have idx: "py_index cur (int k) = Inr (cur ! k)"
    using k(1) Cons.prems(1) by (simp add: py_index_def)
  have ih: "ps_apply_updates (cur[k := v]) upds = Inr (Some (overlay (cur[k := v]) upds))"
    by (rule Cons.IH [OF l d(2) r])
  show ?case
    using P_NAMES_index [OF k(1)] k v idx ih overlay_Cons [OF Cons.prems(1) k(1) d(1), of v]
    by (simp add: u Let_def)
qed

lemma ps_all_correct_overlay:
  assumes "length updated = 17" "distinct (map fst upds)"
    "\<forall>(name, v) \<in> set upds. name \<in> set P_NAMES"
  shows "ps_all_correct updated upds =
           Inr (\<forall>i < 17. case map_of upds (P_NAMES ! i) of
                            None \<Rightarrow> True | Some v \<Rightarrow> updated ! i = v)"
  using assms
proof (induction upds)
  case Nil
  then show ?case by simp
next
  case (Cons u upds)
  obtain name v where u: "u = (name, v)" by (cases u)
  have "name \<in> set P_NAMES" using Cons.prems(3) u by simp
  then obtain k where k: "k < 17" "name = P_NAMES ! k"
    using P_NAMES_length by (auto simp: in_set_conv_nth)
  have d: "P_NAMES ! k \<notin> fst ` set upds" "distinct (map fst upds)"
    using Cons.prems(2) u k by simp_all
  have n: "map_of upds (P_NAMES ! k) = None"
    using d(1) by (simp add: map_of_eq_None_iff)
  have r: "\<forall>(name, v) \<in> set upds. name \<in> set P_NAMES"
    using Cons.prems(3) by simp
  have idx: "py_index updated (int k) = Inr (updated ! k)"
    using k(1) Cons.prems(1) by (simp add: py_index_def)
  have ih: "ps_all_correct updated upds =
           Inr (\<forall>i < 17. case map_of upds (P_NAMES ! i) of
                            None \<Rightarrow> True | Some v \<Rightarrow> updated ! i = v)"
    by (rule Cons.IH [OF Cons.prems(1) d(2) r])
  have eq: "(\<forall>i < 17. case map_of ((P_NAMES ! k, v) # upds) (P_NAMES ! i) of
                            None \<Rightarrow> True | Some w \<Rightarrow> updated ! i = w)
            = (updated ! k = v \<and> (\<forall>i < 17. case map_of upds (P_NAMES ! i) of
                            None \<Rightarrow> True | Some w \<Rightarrow> updated ! i = w))"
  proof -
    have "\<And>i. i < 17 \<Longrightarrow>
            (case map_of ((P_NAMES ! k, v) # upds) (P_NAMES ! i) of
               None \<Rightarrow> True | Some w \<Rightarrow> updated ! i = w)
            = (if i = k then updated ! k = v
               else (case map_of upds (P_NAMES ! i) of
                       None \<Rightarrow> True | Some w \<Rightarrow> updated ! i = w))"
      using P_NAMES_inj [OF _ k(1)] by simp
    then show ?thesis using k(1) n by (auto split: if_splits)
  qed
  show ?case
    using P_NAMES_index [OF k(1)] idx ih eq
    by (simp add: u k(2))
qed

text \<open>The partial updates, up to and after the write.\<close>

lemma es_new_params_fields:
  "rm \<noteq> ROther \<Longrightarrow>
   energy1 (es_new_params cur rm e t th) = (if rm = R2_5 then e else energy1 cur)
   \<and> time1 (es_new_params cur rm e t th)
       = (if rm = R2_5 then (case t of None \<Rightarrow> time1 cur | Some v \<Rightarrow> v) else time1 cur)
   \<and> threshold1 (es_new_params cur rm e t th)
       = (if rm = R2_5 then (case th of None \<Rightarrow> threshold1 cur | Some v \<Rightarrow> v)
          else threshold1 cur)
   \<and> energy2 (es_new_params cur rm e t th) = (if rm = R1_5 then e else energy2 cur)
   \<and> time2 (es_new_params cur rm e t th)
       = (if rm = R1_5 then (case t of None \<Rightarrow> time2 cur | Some v \<Rightarrow> v) else time2 cur)
   \<and> threshold2 (es_new_params cur rm e t th)
       = (if rm = R1_5 then (case th of None \<Rightarrow> threshold2 cur | Some v \<Rightarrow> v)
          else threshold2 cur)
   \<and> energy3 (es_new_params cur rm e t th) = (if rm = R6_5 then e else energy3 cur)
   \<and> time3 (es_new_params cur rm e t th)
       = (if rm = R6_5 then (case t of None \<Rightarrow> time3 cur | Some v \<Rightarrow> v) else time3 cur)
   \<and> threshold3 (es_new_params cur rm e t th)
       = (if rm = R6_5 then (case th of None \<Rightarrow> threshold3 cur | Some v \<Rightarrow> v)
          else threshold3 cur)"
  by (cases rm; cases t; cases th) (simp_all add: es_new_params_def)

lemma es_overlay:
  assumes "rm \<noteq> ROther" "es_read_probe_params d pn p = (Some cur, p1)"
  shows "es_set_range_energy d pn rm e t th permanent verify p =
      es_verify d pn rm e verify
        (es_set_probe_params d pn
           (if rm = R2_5 then e else energy1 cur)
           (if rm = R2_5 then (case t of None \<Rightarrow> time1 cur | Some v \<Rightarrow> v) else time1 cur)
           (if rm = R2_5 then (case th of None \<Rightarrow> threshold1 cur | Some v \<Rightarrow> v)
            else threshold1 cur)
           (if rm = R1_5 then e else energy2 cur)
           (if rm = R1_5 then (case t of None \<Rightarrow> time2 cur | Some v \<Rightarrow> v) else time2 cur)
           (if rm = R1_5 then (case th of None \<Rightarrow> threshold2 cur | Some v \<Rightarrow> v)
            else threshold2 cur)
           (if rm = R6_5 then e else energy3 cur)
           (if rm = R6_5 then (case t of None \<Rightarrow> time3 cur | Some v \<Rightarrow> v) else time3 cur)
           (if rm = R6_5 then (case th of None \<Rightarrow> threshold3 cur | Some v \<Rightarrow> v)
            else threshold3 cur)
           permanent 3 p1)"
  using assms es_new_params_fields [OF assms(1), of cur e t th]
  by (simp add: es_set_range_energy_def Let_def)

lemma ps_overlay:
  assumes "ps_read_probe_p_values d pn p = (Some cur, p1)" "distinct (map fst upds)"
    "\<forall>(name, v) \<in> set upds. name \<in> set P_NAMES \<and> 0 \<le> v \<and> v \<le> 31"
  shows "ps_set_individual_p_values d pn upds permanent verify p =
      ps_verify_updates d pn upds verify
        (ps_set_probe_p_values d pn (overlay cur upds) permanent 3 p1)"
proof -
  have l: "length cur = 17" by (rule ps_read_length [OF assms(1)])
  then have ne: "cur \<noteq> []" by auto
  show ?thesis
    using assms(1) ne ps_apply_updates_overlay [OF l assms(2,3)]
    by (simp add: ps_set_individual_p_values_def)
qed

lemma es_verified:
  assumes "rm \<noteq> ROther" "es_read_probe_params d pn p = (Some cur, p1)"
    "new = es_new_params cur rm e t th"
    "es_set_probe_params d pn (energy1 new) (time1 new) (threshold1 new)
       (energy2 new) (time2 new) (threshold2 new)
       (energy3 new) (time3 new) (threshold3 new) permanent 3 p1 = (Inr True, p2)"
    "es_read_probe_params d pn p2 = (r, p3)"
  shows "es_set_range_energy d pn rm e t th permanent True p =
     (case r of
        None \<Rightarrow> (Inr True, p3)
      | Some updated \<Rightarrow>
          (Inr ((rm = R2_5 \<and> energy1 updated = e) \<or> (rm = R1_5 \<and> energy2 updated = e)
                \<or> (rm = R6_5 \<and> energy3 updated = e)), p3))"
  using assms
  by (cases r; cases rm) (simp_all add: es_set_range_energy_def es_verify_def Let_def)

lemma ps_verified:
  assumes "ps_read_probe_p_values d pn p = (Some cur, p1)" "distinct (map fst upds)"
    "\<forall>(name, v) \<in> set upds. name \<in> set P_NAMES \<and> 0 \<le> v \<and> v \<le> 31"
    "ps_set_probe_p_values d pn (overlay cur upds) permanent 3 p1 = (Inr True, p2)"
    "ps_read_probe_p_values d pn p2 = (r, p3)"
  shows "ps_set_individual_p_values d pn upds permanent True p =
     (case r of
        None \<Rightarrow> (Inr True, p3)
      | Some updated \<Rightarrow>
          (Inr (\<forall>i < 17. case map_of upds (P_NAMES ! i) of
                            None \<Rightarrow> True | Some v \<Rightarrow> updated ! i = v), p3))"
proof (cases r)
  case None
  then show ?thesis
    using assms(4,5) by (simp add: ps_overlay [OF assms(1-3)] ps_verify_updates_def)
next
  case (Some updated)
  then have l: "length updated = 17" using ps_read_length assms(5) by blast
  then have ne: "updated \<noteq> []" by auto
  have n: "\<forall>(name, v) \<in> set upds. name \<in> set P_NAMES" using assms(3) by auto
  show ?thesis
    using assms(4,5) Some ne ps_all_correct_overlay [OF l assms(2) n]
    by (simp add: ps_overlay [OF assms(1-3)] ps_verify_updates_def)
qed

lemma preset_verified:
  assumes "BEAM_PRESETS preset_name = Some preset_values"
    "ps_set_probe_p_values d pn preset_values permanent 3 p = (Inr True, p1)"
    "ps_read_probe_p_values d pn p1 = (r, p2)"
  shows "ps_apply_preset d pn preset_name permanent True p =
     (case r of
        None \<Rightarrow> (Inr True, p2)
      | Some updated \<Rightarrow> (Inr (updated = preset_values), p2))"
proof (cases r)
  case None
  then show ?thesis using assms by (simp add: ps_apply_preset_def)
next
  case (Some updated)
  then have "length updated = 17" using ps_read_length assms(3) by blast
  then have "updated \<noteq> []" by auto
  then show ?thesis using assms Some by (simp add: ps_apply_preset_def)
qed

text \<open>Requests with a value out of range.\<close>

lemma es_read_written:
  "frames_written (snd (es_read_probe_params d pn p)) = frames_written p
   \<or> (\<exists>param. ES_PROBE_QUERY_PARAMS pn = Some param
        \<and> frames_written (snd (es_read_probe_params d pn p))
            = frames_written p @ [[ADDR_CODE, CMD_CODE, param, (ADDR_CODE XOR CMD_CODE) XOR param]])"
  by (auto simp: es_read_probe_params_def port_defs frames_written_def Let_def
      split: option.splits prod.splits outcome.splits if_splits)

lemma ps_read_written:
  "frames_written (snd (ps_read_probe_p_values d pn p)) = frames_written p
   \<or> (\<exists>param. PS_PROBE_QUERY_PARAMS pn = Some param
        \<and> frames_written (snd (ps_read_probe_p_values d pn p))
            = frames_written p @ [[ADDR_CODE, CMD_CODE, param, (ADDR_CODE XOR CMD_CODE) XOR param]])"
  by (auto simp: ps_read_probe_p_values_def port_defs frames_written_def Let_def
      split: option.splits prod.splits outcome.splits if_splits)

lemma es_range_rejected:
  assumes "\<not> (0 \<le> e1 \<and> e1 \<le> 7 \<and> 0 \<le> e2 \<and> e2 \<le> 7 \<and> 0 \<le> e3 \<and> e3 \<le> 7
        \<and> 0 \<le> t1 \<and> t1 \<le> 7 \<and> 0 \<le> t2 \<and> t2 \<le> 7 \<and> 0 \<le> t3 \<and> t3 \<le> 7
        \<and> 0 \<le> th1 \<and> th1 \<le> 3 \<and> 0 \<le> th2 \<and> th2 \<le> 3 \<and> 0 \<le> th3 \<and> th3 \<le> 3)"
  shows "es_set_probe_params d pn e1 t1 th1 e2 t2 th2 e3 t3 th3 permanent max_retries p
        = (Inr False, p)"
  using assms by (auto simp: es_set_probe_params_def)

lemma es_range_energy_rejected:
  assumes rm: "rm \<noteq> ROther"
    and bad: "e < 0 \<or> 7 < e \<or> (\<exists>v. t = Some v \<and> (v < 0 \<or> 7 < v))
              \<or> (\<exists>v. th = Some v \<and> (v < 0 \<or> 3 < v))"
  shows "es_set_range_energy d pn rm e t th permanent verify p
           = (Inr False, snd (es_read_probe_params d pn p))"
proof (cases "es_read_probe_params d pn p")
  case (Pair r p1)
  show ?thesis
  proof (cases r)
    case None
    then show ?thesis using Pair rm by (simp add: es_set_range_energy_def)
  next
    case (Some cur)
    let ?n = "es_new_params cur rm e t th"
    have f: "\<not> (0 \<le> energy1 ?n \<and> energy1 ?n \<le> 7 \<and> 0 \<le> energy2 ?n \<and> energy2 ?n \<le> 7
        \<and> 0 \<le> energy3 ?n \<and> energy3 ?n \<le> 7
        \<and> 0 \<le> time1 ?n \<and> time1 ?n \<le> 7 \<and> 0 \<le> time2 ?n \<and> time2 ?n \<le> 7
        \<and> 0 \<le> time3 ?n \<and> time3 ?n \<le> 7
        \<and> 0 \<le> threshold1 ?n \<and> threshold1 ?n \<le> 3 \<and> 0 \<le> threshold2 ?n
        \<and> threshold2 ?n \<le> 3 \<and> 0 \<le> threshold3 ?n \<and> threshold3 ?n \<le> 3)"
      using bad rm es_new_params_fields [OF rm, of cur e t th]
      by (cases rm) auto
    show ?thesis
      using Pair Some rm es_range_rejected [OF f, of d pn permanent 3 p1]
      by (simp add: es_set_range_energy_def es_verify_def Let_def)
  qed
qed

lemma P_DESCRIPTIONS_names: "P_DESCRIPTIONS name \<noteq> None \<Longrightarrow> name \<in> set P_NAMES"
  by (auto simp: P_DESCRIPTIONS_def P_NAMES_def split: if_splits)

lemma ps_apply_updates_rejects:
  assumes "length cur = 17" "\<exists>(name, v) \<in> set upds. v < 0 \<or> 31 < v"
  shows "ps_apply_updates cur upds = Inr None"
  using assms
proof (induction upds arbitrary: cur)
  case Nil
  then show ?case by simp
next
  case (Cons u upds)
  obtain name v where u: "u = (name, v)" by (cases u)
  show ?case
  proof (cases "P_DESCRIPTIONS name = None")
    case True
    then show ?thesis by (simp add: u)
  next
    case False
    then have "name \<in> set P_NAMES" by (rule P_DESCRIPTIONS_names)
    then obtain k where k: "k < 17" "name = P_NAMES ! k"
      using P_NAMES_length by (auto simp: in_set_conv_nth)
    have idx: "py_index cur (int k) = Inr (cur ! k)"
      using k(1) Cons.prems(1) by (simp add: py_index_def)
    show ?thesis
    proof (cases "0 \<le> v \<and> v \<le> 31")
      case False
      then show ?thesis using P_NAMES_index [OF k(1)] k by (auto simp: u Let_def)
    next
      case True
      then have r: "\<exists>(name, v) \<in> set upds. v < 0 \<or> 31 < v"
        using Cons.prems(2) u by auto
      have l: "length (cur[k := v]) = 17" using Cons.prems(1) by simp
      show ?thesis
        using P_NAMES_index [OF k(1)] k True idx Cons.IH [OF l r]
        by (simp add: u Let_def)
    qed
  qed
qed

lemma ps_individual_rejected:
  assumes "\<exists>(name, v) \<in> set upds. v < 0 \<or> 31 < v"
  shows "ps_set_individual_p_values d pn upds permanent verify p
           = (Inr False, snd (ps_read_probe_p_values d pn p))"
proof (cases "ps_read_probe_p_values d pn p")
  case (Pair r p1)
  show ?thesis
  proof (cases r)
    case None
    then show ?thesis using Pair by (simp add: ps_set_individual_p_values_def)
  next
    case (Some cur)
    then have l: "length cur = 17" using Pair ps_read_length by blast
    show ?thesis
      using Pair Some ps_apply_updates_rejects [OF l assms]
      by (simp add: ps_set_individual_p_values_def)
  qed
qed

section \<open>Frame codec\<close>

text \<open>
  C8. For every byte sequence of length at least 1 the checksum function equals
  the left-to-right XOR-fold of the sequence, and every frame that is built ends
  in the XOR of all its preceding bytes: the 4-byte query frame of both readers,
  the 15-byte energy write frame and the 21-byte P-value write frame.
\<close>

theorem frames_end_in_checksum:
  "(seq \<noteq> [] \<longrightarrow> calculate_bcc seq = xor_fold seq)
   \<and> (er_create_query_command pn = Inr frame \<longrightarrow>
        length frame = 4 \<and> last frame = xor_fold (butlast frame))
   \<and> (pr_create_query_command pn' = Inr frame' \<longrightarrow>
        length frame' = 4 \<and> last frame' = xor_fold (butlast frame'))
   \<and> length (es_full_command param1 e1 t1 th1 e2 t2 th2 e3 t3 th3) = 15
   \<and> last (es_full_command param1 e1 t1 th1 e2 t2 th2 e3 t3 th3)
       = xor_fold (butlast (es_full_command param1 e1 t1 th1 e2 t2 th2 e3 t3 th3))
   \<and> (length p_values = 17 \<longrightarrow> length (ps_full_command param1' p_values) = 21)
   \<and> last (ps_full_command param1' p_values)
       = xor_fold (butlast (ps_full_command param1' p_values))"
proof -
  have q1: "er_create_query_command pn = Inr frame \<longrightarrow>
        length frame = 4 \<and> last frame = xor_fold (butlast frame)"
    by (auto simp: er_create_query_command_def xor_fold_def Let_def split: option.splits)
  have q2: "pr_create_query_command pn' = Inr frame' \<longrightarrow>
        length frame' = 4 \<and> last frame' = xor_fold (butlast frame')"
    by (auto simp: pr_create_query_command_def xor_fold_def Let_def split: option.splits)
  have e: "last (es_full_command param1 e1 t1 th1 e2 t2 th2 e3 t3 th3)
       = xor_fold (butlast (es_full_command param1 e1 t1 th1 e2 t2 th2 e3 t3 th3))"
    by (simp add: es_full_command_def Let_def calculate_bcc_xor_fold)
  have el: "length (es_full_command param1 e1 t1 th1 e2 t2 th2 e3 t3 th3) = 15"
    by (simp add: es_full_command_def Let_def)
  have p: "last (ps_full_command param1' p_values)
       = xor_fold (butlast (ps_full_command param1' p_values))"
    by (simp add: ps_full_command_def Let_def calculate_bcc_xor_fold)
  have pl: "length p_values = 17 \<longrightarrow> length (ps_full_command param1' p_values) = 21"
    by (simp add: ps_full_command_def Let_def)
  show ?thesis using q1 q2 e el p pl by (simp add: calculate_bcc_xor_fold)
qed

theorem frames_end_in_checksum_witness:
  "[0xE8, 0x99, 0xD3] \<noteq> ([] :: bytes)
   \<and> calculate_bcc [0xE8, 0x99, 0xD3] = xor_fold [0xE8, 0x99, 0xD3]
   \<and> er_create_query_command 3 = Inr [0xE8, 0x99, 0xD3, 0xA2]
   \<and> last [0xE8, 0x99, 0xD3, 0xA2 :: byte] = xor_fold (butlast [0xE8, 0x99, 0xD3, 0xA2])
   \<and> pr_create_query_command 1 = Inr [0xE8, 0x99, 0xE1, 0x90]
   \<and> last [0xE8, 0x99, 0xE1, 0x90 :: byte] = xor_fold (butlast [0xE8, 0x99, 0xE1, 0x90])
   \<and> length [31, 31, 31, 30, 26, 21, 16, 16, 13, 0, 0, 0, 0, 3, 1, 0, 1 :: int] = 17
   \<and> length (ps_full_command 0xC1 [31, 31, 31, 30, 26, 21, 16, 16, 13, 0, 0, 0, 0, 3, 1, 0, 1])
       = 21"
proof -
  have a: "er_create_query_command 3 = Inr [0xE8, 0x99, 0xD3, 0xA2]"
    by (simp add: er_create_query_command_def ER_PROBE_PARAMS_def ADDR_CODE_def CMD_CODE_def)
  have b: "pr_create_query_command 1 = Inr [0xE8, 0x99, 0xE1, 0x90]"
    by (simp add: pr_create_query_command_def PR_PROBE_PARAMS_def ADDR_CODE_def CMD_CODE_def)
  show ?thesis
    using a b
      frames_end_in_checksum [of "[0xE8, 0x99, 0xD3]" 3 "[0xE8, 0x99, 0xD3, 0xA2]"
        1 "[0xE8, 0x99, 0xE1, 0x90]" 0 0 0 0 0 0 0 0 0 0
        "[31, 31, 31, 30, 26, 21, 16, 16, 13, 0, 0, 0, 0, 3, 1, 0, 1]" "0xC1"]
    by simp
qed

section \<open>Response classifier\<close>

text \<open>
  C1. For a probe number in the query table of its reader, a raw response is
  accepted exactly when its length is the fixed length of the operation (15 for
  energy, 21 for P-values), its address byte is 0xE8, its command byte is 0x99, its
  third byte is the parameter code of the requested probe and its final byte is the
  XOR of all preceding bytes; every other response, the empty one included, is
  rejected, and the classifier does not raise.
\<close>

theorem validate_response_iff:
  "(ER_PROBE_PARAMS pn = Some param \<longrightarrow>
      er_validate_response response pn =
        Inr (length response = 15 \<and> response ! 0 = 0xE8 \<and> response ! 1 = 0x99
             \<and> response ! 2 = param \<and> last response = xor_fold (butlast response)))
   \<and> (PR_PROBE_PARAMS pn' = Some param' \<longrightarrow>
      pr_validate_response response' pn' =
        Inr (length response' = 21 \<and> response' ! 0 = 0xE8 \<and> response' ! 1 = 0x99
             \<and> response' ! 2 = param' \<and> last response' = xor_fold (butlast response')))"
  using butlast_bcc [of response 13] butlast_bcc [of response' 19]
  by (auto simp: er_validate_response_def ER_EXPECTED_RESPONSE_LENGTH_def
      pr_validate_response_def PR_EXPECTED_RESPONSE_LENGTH_def ADDR_CODE_def CMD_CODE_def
      Let_def)

theorem validate_response_iff_witness:
  "ER_PROBE_PARAMS 3 = Some 0xD3
   \<and> er_validate_response scenario_frame 3 = Inr True
   \<and> er_validate_response (butlast scenario_frame) 3 = Inr False
   \<and> er_validate_response [] 3 = Inr False
   \<and> PR_PROBE_PARAMS 1 = Some 0xE1
   \<and> pr_validate_response [] 1 = Inr False"
proof -
  have a: "ER_PROBE_PARAMS 3 = Some 0xD3" by (simp add: ER_PROBE_PARAMS_def)
  have b: "PR_PROBE_PARAMS 1 = Some 0xE1" by (simp add: PR_PROBE_PARAMS_def)
  have c: "last scenario_frame = xor_fold (butlast scenario_frame)"
    by (simp add: scenario_frame_def)
  show ?thesis
    using a b c validate_response_iff [of 3 "0xD3" scenario_frame 1 "0xE1" "[]"]
      validate_response_iff [of 3 "0xD3" "butlast scenario_frame" 1 "0xE1" "[]"]
      validate_response_iff [of 3 "0xD3" "[]" 1 "0xE1" "[]"]
    by (simp add: scenario_frame_eq)
qed

section \<open>Query engine\<close>

text \<open>
  C9. Querying probe 3 on a transport that returns the 15-byte frame
  E8 99 D3 02 02 02 01 00 02 05 06 02 2C 40 followed by the XOR of those 14 bytes:
  the frame is classified valid and the query returns the parsed profile, whose
  first range is energy 2, time 2, threshold 2, whose second range is 1, 0, 2 and
  whose third range is 5, 6, 2.
\<close>

theorem query_probe_3_scenario:
  "er_validate_response scenario_frame 3 = Inr True
   \<and> fst (er_query_probe scripted 3 3 (start [scenario_frame]))
       = Inr (Some (er_parse_response scenario_frame 3))
   \<and> range_2_5m (er_parse_response scenario_frame 3) = \<lparr>energy = 2, time = 2, threshold = 2\<rparr>
   \<and> range_1_5m (er_parse_response scenario_frame 3) = \<lparr>energy = 1, time = 0, threshold = 2\<rparr>
   \<and> range_6_5m (er_parse_response scenario_frame 3) = \<lparr>energy = 5, time = 6, threshold = 2\<rparr>"
proof -
  have v: "er_validate_response scenario_frame 3 = Inr True"
    by (simp add: scenario_frame_eq er_validate_response_def ER_EXPECTED_RESPONSE_LENGTH_def
        ER_PROBE_PARAMS_def ADDR_CODE_def CMD_CODE_def calculate_bcc_def)
  have l: "length scenario_frame = 15" by (simp add: scenario_frame_eq)
  have a: "er_query_attempt scripted [0xE8, 0x99, 0xD3, 0xA2] 3 0 (start [scenario_frame])
     = (Some (er_parse_response scenario_frame 3),
        \<lparr>dev_state = [],
         trace = [EvReset, EvWrite [0xE8, 0x99, 0xD3, 0xA2], EvFlush, EvRead 15]\<rparr>)"
    by (simp add: er_query_attempt_def port_defs scripted_def start_def v l
        ER_EXPECTED_RESPONSE_LENGTH_def)
  have q: "fst (er_query_probe scripted 3 3 (start [scenario_frame]))
       = Inr (Some (er_parse_response scenario_frame 3))"
    by (simp add: er_query_probe_def er_create_query_command_def ER_PROBE_PARAMS_def
        ADDR_CODE_def CMD_CODE_def upt_conv_Cons a [unfolded ADDR_CODE_def CMD_CODE_def])
  show ?thesis using v q
    by (simp add: er_parse_response_def scenario_frame_eq)
qed

theorem query_probe_3_scenario_witness:
  "\<exists>r. fst (er_query_probe scripted 3 3 (start [scenario_frame])) = Inr (Some r)
       \<and> energy (range_2_5m r) = 2 \<and> time (range_2_5m r) = 2 \<and> threshold (range_2_5m r) = 2
       \<and> energy (range_1_5m r) = 1 \<and> time (range_1_5m r) = 0 \<and> threshold (range_1_5m r) = 2
       \<and> energy (range_6_5m r) = 5 \<and> time (range_6_5m r) = 6 \<and> threshold (range_6_5m r) = 2"
  using query_probe_3_scenario by simp

text \<open>
  C5. For every probe number in the query table, a query against a transport
  whose reads always return empty (and whose buffer reset does not fail) makes
  exactly \<open>max_retries\<close> transport writes, one per attempt, and then returns no
  value: the result is \<open>None\<close>, not an exception. This holds for the energy
  reader and for the P-value reader, whatever the writes themselves return.
\<close>

theorem query_exhaustion:
  assumes rd: "\<forall>n s. fst (dev_read d n s) = Returns []"
      and rs: "\<forall>s. fst (dev_reset_input_buffer d s) = Returns ()"
      and mr: "0 \<le> max_retries"
  shows "(ER_PROBE_PARAMS pn \<noteq> None \<longrightarrow>
            fst (er_query_probe d pn max_retries p) = Inr None
            \<and> int (writes (snd (er_query_probe d pn max_retries p)))
                = int (writes p) + max_retries)
       \<and> (PR_PROBE_PARAMS pn \<noteq> None \<longrightarrow>
            fst (pr_query_probe d pn max_retries p) = Inr None
            \<and> int (writes (snd (pr_query_probe d pn max_retries p)))
                = int (writes p) + max_retries)"
proof (intro conjI impI)
  assume "ER_PROBE_PARAMS pn \<noteq> None"
  then obtain command where c: "er_create_query_command pn = Inr command"
    by (auto simp: er_create_query_command_def Let_def)
  obtain p' where l: "er_query_attempts d command pn [0 ..< nat max_retries] p = (None, p')"
     "writes p' = writes p + length [0 ..< nat max_retries]"
    using er_attempts_silent [OF rd rs] by blast
  show "fst (er_query_probe d pn max_retries p) = Inr None"
    using c l by (simp add: er_query_probe_def)
  show "int (writes (snd (er_query_probe d pn max_retries p))) = int (writes p) + max_retries"
    using c l mr by (simp add: er_query_probe_def)
next
  assume "PR_PROBE_PARAMS pn \<noteq> None"
  then obtain command where c: "pr_create_query_command pn = Inr command"
    by (auto simp: pr_create_query_command_def Let_def)
  obtain p' where l: "pr_query_attempts d command pn [0 ..< nat max_retries] p = (None, p')"
     "writes p' = writes p + length [0 ..< nat max_retries]"
    using pr_attempts_silent [OF rd rs] by blast
  show "fst (pr_query_probe d pn max_retries p) = Inr None"
    using c l by (simp add: pr_query_probe_def)
  show "int (writes (snd (pr_query_probe d pn max_retries p))) = int (writes p) + max_retries"
    using c l mr by (simp add: pr_query_probe_def)
qed

theorem query_exhaustion_witness:
  "(\<forall>n s. fst (dev_read silent n s) = Returns [])
   \<and> (\<forall>s. fst (dev_reset_input_buffer silent s) = Returns ())
   \<and> ER_PROBE_PARAMS 4 \<noteq> None \<and> PR_PROBE_PARAMS 4 \<noteq> None
   \<and> fst (er_query_probe silent 4 3 (start ())) = Inr None
   \<and> writes (snd (er_query_probe silent 4 3 (start ()))) = 3
   \<and> fst (pr_query_probe silent 4 3 (start ())) = Inr None
   \<and> writes (snd (pr_query_probe silent 4 3 (start ()))) = 3"
proof -
  have a: "\<forall>n s. fst (dev_read silent n s) = Returns []" by (simp add: silent_def)
  have b: "\<forall>s. fst (dev_reset_input_buffer silent s) = Returns ()" by (simp add: silent_def)
  have c: "ER_PROBE_PARAMS 4 \<noteq> None" "PR_PROBE_PARAMS 4 \<noteq> None"
    by (simp_all add: ER_PROBE_PARAMS_def PR_PROBE_PARAMS_def)
  have w: "writes (start ()) = 0" by (simp add: writes_def start_def)
  show ?thesis
    using a b c w query_exhaustion [OF a b, of 3 4 "start ()"] by simp
qed

section \<open>Write engine\<close>

text \<open>
  C7, as the code has it. Range validation comes before any write frame is sent.
  \<open>set_probe_params\<close> and \<open>set_probe_p_values\<close>, given an energy or a
  blind-zone time outside 0..7, a threshold outside 0..3 or a P-value outside
  0..31, return \<open>False\<close> and leave the port as it was: no transport call is
  made. The partial updates \<open>set_range_energy\<close> and
  \<open>set_individual_p_values\<close> first read the current profile; given a requested
  value out of range they return \<open>False\<close> with the port as that read left it,
  and the read sends nothing or the one 4-byte query frame of the probe.
\<close>

theorem range_rejected_before_write_frame:
  "(\<not> (0 \<le> e1 \<and> e1 \<le> 7 \<and> 0 \<le> e2 \<and> e2 \<le> 7 \<and> 0 \<le> e3 \<and> e3 \<le> 7
        \<and> 0 \<le> t1 \<and> t1 \<le> 7 \<and> 0 \<le> t2 \<and> t2 \<le> 7 \<and> 0 \<le> t3 \<and> t3 \<le> 7
        \<and> 0 \<le> th1 \<and> th1 \<le> 3 \<and> 0 \<le> th2 \<and> th2 \<le> 3 \<and> 0 \<le> th3 \<and> th3 \<le> 3) \<longrightarrow>
      es_set_probe_params d pn e1 t1 th1 e2 t2 th2 e3 t3 th3 permanent max_retries p
        = (Inr False, p))
   \<and> ((\<exists>v \<in> set p_values. v < 0 \<or> 31 < v) \<longrightarrow>
      ps_set_probe_p_values d' pn' p_values permanent' max_retries' p' = (Inr False, p'))
   \<and> (rm \<noteq> ROther
       \<and> (e < 0 \<or> 7 < e \<or> (\<exists>v. t = Some v \<and> (v < 0 \<or> 7 < v))
            \<or> (\<exists>v. th = Some v \<and> (v < 0 \<or> 3 < v))) \<longrightarrow>
      es_set_range_energy d pn rm e t th permanent verify p
        = (Inr False, snd (es_read_probe_params d pn p)))
   \<and> (frames_written (snd (es_read_probe_params d pn p)) = frames_written p
       \<or> (\<exists>param. ES_PROBE_QUERY_PARAMS pn = Some param
            \<and> frames_written (snd (es_read_probe_params d pn p))
                = frames_written p
                  @ [[ADDR_CODE, CMD_CODE, param, (ADDR_CODE XOR CMD_CODE) XOR param]]))
   \<and> ((\<exists>(name, v) \<in> set upds. v < 0 \<or> 31 < v) \<longrightarrow>
      ps_set_individual_p_values d' pn' upds permanent' verify' p'
        = (Inr False, snd (ps_read_probe_p_values d' pn' p')))
   \<and> (frames_written (snd (ps_read_probe_p_values d' pn' p')) = frames_written p'
       \<or> (\<exists>param. PS_PROBE_QUERY_PARAMS pn' = Some param
            \<and> frames_written (snd (ps_read_probe_p_values d' pn' p'))
                = frames_written p'
                  @ [[ADDR_CODE, CMD_CODE, param, (ADDR_CODE XOR CMD_CODE) XOR param]]))"
proof (intro conjI)
  show "\<not> (0 \<le> e1 \<and> e1 \<le> 7 \<and> 0 \<le> e2 \<and> e2 \<le> 7 \<and> 0 \<le> e3 \<and> e3 \<le> 7
        \<and> 0 \<le> t1 \<and> t1 \<le> 7 \<and> 0 \<le> t2 \<and> t2 \<le> 7 \<and> 0 \<le> t3 \<and> t3 \<le> 7
        \<and> 0 \<le> th1 \<and> th1 \<le> 3 \<and> 0 \<le> th2 \<and> th2 \<le> 3 \<and> 0 \<le> th3 \<and> th3 \<le> 3) \<longrightarrow>
      es_set_probe_params d pn e1 t1 th1 e2 t2 th2 e3 t3 th3 permanent max_retries p
        = (Inr False, p)"
    using es_range_rejected by blast
  show "(\<exists>v \<in> set p_values. v < 0 \<or> 31 < v) \<longrightarrow>
      ps_set_probe_p_values d' pn' p_values permanent' max_retries' p' = (Inr False, p')"
    by (auto simp: ps_set_probe_p_values_def list_all_iff)
  show "rm \<noteq> ROther
       \<and> (e < 0 \<or> 7 < e \<or> (\<exists>v. t = Some v \<and> (v < 0 \<or> 7 < v))
            \<or> (\<exists>v. th = Some v \<and> (v < 0 \<or> 3 < v))) \<longrightarrow>
      es_set_range_energy d pn rm e t th permanent verify p
        = (Inr False, snd (es_read_probe_params d pn p))"
    using es_range_energy_rejected by blast
  show "(\<exists>(name, v) \<in> set upds. v < 0 \<or> 31 < v) \<longrightarrow>
      ps_set_individual_p_values d' pn' upds permanent' verify' p'
        = (Inr False, snd (ps_read_probe_p_values d' pn' p'))"
    using ps_individual_rejected by blast
qed (rule es_read_written ps_read_written)+

theorem range_rejected_before_write_frame_witness:
  "es_set_probe_params scripted 1 8 2 2 1 0 2 5 6 2 False 3 (start [current_frame])
     = (Inr False, start [current_frame])
   \<and> es_set_probe_params scripted 1 3 8 2 1 0 2 5 6 2 False 3 (start [current_frame])
     = (Inr False, start [current_frame])
   \<and> es_set_probe_params scripted 1 3 2 4 1 0 2 5 6 2 False 3 (start [current_frame])
     = (Inr False, start [current_frame])
   \<and> ps_set_probe_p_values scripted 1
        [32, 31, 31, 30, 26, 21, 16, 16, 13, 0, 0, 0, 0, 3, 1, 0, 1] False 3
        (start [p_current_frame])
       = (Inr False, start [p_current_frame])
   \<and> frames_written (start [current_frame]) = []
   \<and> es_set_range_energy scripted 1 R2_5 8 None None False True (start [current_frame])
     = (Inr False, snd (es_read_probe_params scripted 1 (start [current_frame])))
   \<and> es_set_range_energy scripted 1 R1_5 3 (Some 8) None False True (start [current_frame])
     = (Inr False, snd (es_read_probe_params scripted 1 (start [current_frame])))
   \<and> es_set_range_energy scripted 1 R6_5 3 None (Some 4) False True (start [current_frame])
     = (Inr False, snd (es_read_probe_params scripted 1 (start [current_frame])))
   \<and> frames_written (snd (es_read_probe_params scripted 1 (start [current_frame])))
     = [[0xE8, 0x99, 0xD1, 0xA0]]
   \<and> ps_set_individual_p_values scripted 1 [(''P1'', 32)] False True (start [p_current_frame])
     = (Inr False, snd (ps_read_probe_p_values scripted 1 (start [p_current_frame])))
   \<and> frames_written (snd (ps_read_probe_p_values scripted 1 (start [p_current_frame])))
     = [[0xE8, 0x99, 0xE1, 0x90]]"
proof -
  have w0: "frames_written (start [current_frame]) = []" by (simp add: frames_written_def start_def)
  have w1: "frames_written (snd (es_read_probe_params scripted 1 (start [current_frame])))
     = [[0xE8, 0x99, 0xD1, 0xA0]]"
    by (simp add: frame_defs es_eval scripted_eval frames_written_def)
  have w2: "frames_written (snd (ps_read_probe_p_values scripted 1 (start [p_current_frame])))
     = [[0xE8, 0x99, 0xE1, 0x90]]"
    by (simp add: frame_defs ps_eval scripted_eval frames_written_def)
  have a: "R2_5 \<noteq> ROther" "R1_5 \<noteq> ROther" "R6_5 \<noteq> ROther" by simp_all
  show ?thesis
    using w0 w1 w2 a
      range_rejected_before_write_frame [where ?e1.0 = 8 and ?t1.0 = 2 and ?th1.0 = 2
        and ?e2.0 = 1 and ?t2.0 = 0 and ?th2.0 = 2 and ?e3.0 = 5 and ?t3.0 = 6 and ?th3.0 = 2
        and d = scripted and pn = 1 and permanent = False and max_retries = 3
        and p = "start [current_frame]"
        and p_values = "[32, 31, 31, 30, 26, 21, 16, 16, 13, 0, 0, 0, 0, 3, 1, 0, 1]"
        and d' = scripted and pn' = 1 and permanent' = False and max_retries' = 3
        and p' = "start [p_current_frame]"
        and rm = R2_5 and e = 8 and t = None and th = None and verify = True
        and upds = "[(''P1'', 32)]" and verify' = True]
      range_rejected_before_write_frame [where ?e1.0 = 3 and ?t1.0 = 8 and ?th1.0 = 2
        and ?e2.0 = 1 and ?t2.0 = 0 and ?th2.0 = 2 and ?e3.0 = 5 and ?t3.0 = 6 and ?th3.0 = 2
        and d = scripted and pn = 1 and permanent = False and max_retries = 3
        and p = "start [current_frame]"
        and p_values = "[32]"
        and d' = scripted and pn' = 1 and permanent' = False and max_retries' = 3
        and p' = "start [p_current_frame]"
        and rm = R1_5 and e = 3 and t = "Some 8" and th = None and verify = True
        and upds = "[(''P1'', 32)]" and verify' = True]
      range_rejected_before_write_frame [where ?e1.0 = 3 and ?t1.0 = 2 and ?th1.0 = 4
        and ?e2.0 = 1 and ?t2.0 = 0 and ?th2.0 = 2 and ?e3.0 = 5 and ?t3.0 = 6 and ?th3.0 = 2
        and d = scripted and pn = 1 and permanent = False and max_retries = 3
        and p = "start [current_frame]"
        and p_values = "[32]"
        and d' = scripted and pn' = 1 and permanent' = False and max_retries' = 3
        and p' = "start [p_current_frame]"
        and rm = R6_5 and e = 3 and t = None and th = "Some 4" and verify = True
        and upds = "[(''P1'', 32)]" and verify' = True]
    by simp
qed

text \<open>
  C7 as stated fails: a request to set the energy of the first range to 8, and a
  request to set P1 to 32, are both rejected, but each only after the query frame
  of the read that precedes a partial update has been written to the transport.
\<close>

theorem partial_update_queries_before_range_check:
  "fst (es_set_range_energy scripted 1 R2_5 8 None None False True (start [current_frame]))
     = Inr False
   \<and> frames_written (snd (es_set_range_energy scripted 1 R2_5 8 None None False True
                     (start [current_frame]))) = [[0xE8, 0x99, 0xD1, 0xA0]]
   \<and> writes (snd (es_set_range_energy scripted 1 R2_5 8 None None False True
                    (start [current_frame]))) = 1
   \<and> fst (ps_set_individual_p_values scripted 1 [(''P1'', 32)] False True
            (start [p_current_frame])) = Inr False
   \<and> frames_written (snd (ps_set_individual_p_values scripted 1 [(''P1'', 32)] False True
                     (start [p_current_frame]))) = [[0xE8, 0x99, 0xE1, 0x90]]
   \<and> writes (snd (ps_set_individual_p_values scripted 1 [(''P1'', 32)] False True
                    (start [p_current_frame]))) = 1"
  by (simp add: frame_defs es_eval ps_eval scripted_eval ps_set_individual_p_values_def
      P_DESCRIPTIONS_def py_int_def digit_val_def py_index_def frames_written_def writes_def)




section \<open>Profile operator\<close>

text \<open>
  C2 at a failing input. \<open>read_probe_params\<close> of the energy setter, the read
  that precedes a partial update, is handed a 15-byte response with a correct
  header whose last byte is not the XOR of the bytes before it, and returns its
  data region as the current profile. \<open>read_probe_p_values\<close> of the P-value
  setter rejects a response of the same kind.
\<close>

theorem energy_read_accepts_bad_checksum:
  "length bad_checksum_frame = 15
   \<and> last bad_checksum_frame \<noteq> xor_fold (butlast bad_checksum_frame)
   \<and> fst (es_read_probe_params scripted 3 (start [bad_checksum_frame]))
       = Some \<lparr>energy1 = 2, time1 = 2, threshold1 = 2, energy2 = 1, time2 = 0, threshold2 = 2,
               energy3 = 5, time3 = 6, threshold3 = 2\<rparr>
   \<and> length bad_checksum_p_frame = 21
   \<and> last bad_checksum_p_frame \<noteq> xor_fold (butlast bad_checksum_p_frame)
   \<and> fst (ps_read_probe_p_values scripted 1 (start [bad_checksum_p_frame])) = None"
  by (simp add: bad_checksum_frame_def bad_checksum_p_frame_def xor_fold_def
      es_read_probe_params_def ps_read_probe_p_values_def calculate_bcc_def
      ES_PROBE_QUERY_PARAMS_def PS_PROBE_QUERY_PARAMS_def port_defs scripted_def start_def
      ADDR_CODE_def CMD_CODE_def)


text \<open>
  C6. A partial update submits the profile just read with exactly the requested
  fields overlaid. Energy: when the read before the update returns \<open>cur\<close>, the
  nine values handed to \<open>set_probe_params\<close> are those of \<open>cur\<close>, except that
  the energy of the named range is the requested energy, and its time and threshold
  are the requested ones when they are given. P-values: when the read returns
  \<open>cur'\<close> and the updates name valid P parameters with values in range, the
  list handed to \<open>set_probe_p_values\<close> has 17 elements, the requested value at
  each named index and the value of \<open>cur'\<close> at every other index.
\<close>

theorem partial_update_overlay:
  "(rm \<noteq> ROther \<and> es_read_probe_params d pn p = (Some cur, p1) \<longrightarrow>
      es_set_range_energy d pn rm e t th permanent verify p =
        es_verify d pn rm e verify
          (es_set_probe_params d pn
             (if rm = R2_5 then e else energy1 cur)
             (if rm = R2_5 then (case t of None \<Rightarrow> time1 cur | Some v \<Rightarrow> v) else time1 cur)
             (if rm = R2_5 then (case th of None \<Rightarrow> threshold1 cur | Some v \<Rightarrow> v)
              else threshold1 cur)
             (if rm = R1_5 then e else energy2 cur)
             (if rm = R1_5 then (case t of None \<Rightarrow> time2 cur | Some v \<Rightarrow> v) else time2 cur)
             (if rm = R1_5 then (case th of None \<Rightarrow> threshold2 cur | Some v \<Rightarrow> v)
              else threshold2 cur)
             (if rm = R6_5 then e else energy3 cur)
             (if rm = R6_5 then (case t of None \<Rightarrow> time3 cur | Some v \<Rightarrow> v) else time3 cur)
             (if rm = R6_5 then (case th of None \<Rightarrow> threshold3 cur | Some v \<Rightarrow> v)
              else threshold3 cur)
             permanent 3 p1))
   \<and> (ps_read_probe_p_values d' pn' p' = (Some cur', p1') \<and> distinct (map fst upds)
       \<and> (\<forall>(name, v) \<in> set upds. name \<in> set P_NAMES \<and> 0 \<le> v \<and> v \<le> 31) \<longrightarrow>
      ps_set_individual_p_values d' pn' upds permanent' verify' p' =
        ps_verify_updates d' pn' upds verify'
          (ps_set_probe_p_values d' pn' (overlay cur' upds) permanent' 3 p1')
      \<and> length (overlay cur' upds) = 17
      \<and> (\<forall>i < 17. overlay cur' upds ! i =
            (case map_of upds (P_NAMES ! i) of None \<Rightarrow> cur' ! i | Some v \<Rightarrow> v)))"
  using es_overlay [of rm d pn p cur p1 e t th permanent verify]
    ps_overlay [of d' pn' p' cur' p1' upds permanent' verify']
    overlay_length [of cur' upds] overlay_nth [of _ cur' upds]
  by blast

theorem partial_update_overlay_witness:
  "es_set_range_energy scripted 1 R1_5 4 (Some 1) None False False
       (start [current_frame, ack_ok])
     = es_verify scripted 1 R1_5 4 False
         (es_set_probe_params scripted 1 3 2 2 4 1 2 5 6 2 False 3
            \<lparr>dev_state = [ack_ok],
             trace = [EvReset, EvWrite [0xE8, 0x99, 0xD1, 0xA0], EvFlush, EvRead 15]\<rparr>)
   \<and> ps_set_individual_p_values scripted 1 [(''P1'', 15), (''P6'', 0)] False False
       (start [p_current_frame, p_ack_ok])
     = ps_verify_updates scripted 1 [(''P1'', 15), (''P6'', 0)] False
         (ps_set_probe_p_values scripted 1
            [15, 19, 19, 31, 31, 0, 31, 31, 31, 31, 31, 31, 0, 3, 1, 0, 1] False 3
            \<lparr>dev_state = [p_ack_ok],
             trace = [EvReset, EvWrite [0xE8, 0x99, 0xE1, 0x90], EvFlush, EvRead 21]\<rparr>)"
proof -
  let ?cur = "\<lparr>energy1 = 3, time1 = 2, threshold1 = 2, energy2 = 1, time2 = 0,
               threshold2 = 2, energy3 = 5, time3 = 6, threshold3 = 2\<rparr>"
  let ?p1 = "\<lparr>dev_state = [ack_ok],
              trace = [EvReset, EvWrite [0xE8, 0x99, 0xD1, 0xA0], EvFlush, EvRead 15]\<rparr>"
  let ?pcur = "[19, 19, 19, 31, 31, 31, 31, 31, 31, 31, 31, 31, 0, 3, 1, 0, 1 :: int]"
  let ?upds = "[(''P1'', 15 :: int), (''P6'', 0)]"
  let ?q1 = "\<lparr>dev_state = [p_ack_ok],
              trace = [EvReset, EvWrite [0xE8, 0x99, 0xE1, 0x90], EvFlush, EvRead 21]\<rparr>"
  have e1: "es_read_probe_params scripted 1 (start [current_frame, ack_ok]) = (Some ?cur, ?p1)"
    by (simp add: frame_defs es_eval scripted_eval)
  have i1: "ps_read_probe_p_values scripted 1 (start [p_current_frame, p_ack_ok])
              = (Some ?pcur, ?q1)"
    by (simp add: frame_defs ps_eval scripted_eval)
  have i2: "distinct (map fst ?upds)" by simp
  have i3: "\<forall>(name, v) \<in> set ?upds. name \<in> set P_NAMES \<and> 0 \<le> v \<and> v \<le> 31"
    by (simp add: P_NAMES_def)
  have o: "overlay ?pcur ?upds = [15, 19, 19, 31, 31, 0, 31, 31, 31, 31, 31, 31, 0, 3, 1, 0, 1]"
    by (simp add: overlay_def P_NAMES_def upt_conv_Cons)
  have a: "es_set_range_energy scripted 1 R1_5 4 (Some 1) None False False
       (start [current_frame, ack_ok])
     = es_verify scripted 1 R1_5 4 False
         (es_set_probe_params scripted 1 3 2 2 4 1 2 5 6 2 False 3 ?p1)"
    using e1
      partial_update_overlay [THEN conjunct1, rule_format,
        of R1_5 scripted 1 "start [current_frame, ack_ok]" ?cur ?p1 4 "Some 1" None False False]
    by simp
  have b: "ps_set_individual_p_values scripted 1 ?upds False False
       (start [p_current_frame, p_ack_ok])
     = ps_verify_updates scripted 1 ?upds False
         (ps_set_probe_p_values scripted 1 (overlay ?pcur ?upds) False 3 ?q1)"
    using i1 i2 i3
      partial_update_overlay [THEN conjunct2, THEN mp,
        of scripted 1 "start [p_current_frame, p_ack_ok]" ?pcur ?q1 ?upds False False]
    by simp
  show ?thesis using a b by (simp add: o)
qed




text \<open>
  C10. When the write is acknowledged as successful and the verification re-read
  returns no profile, the energy range update, the individual P-value update and
  the preset application all report success.
\<close>

theorem unverifiable_write_reports_success:
  "(rm \<noteq> ROther \<and> es_read_probe_params d pn p = (Some cur, p1)
     \<and> new = es_new_params cur rm e t th
     \<and> es_set_probe_params d pn (energy1 new) (time1 new) (threshold1 new)
         (energy2 new) (time2 new) (threshold2 new)
         (energy3 new) (time3 new) (threshold3 new) permanent 3 p1 = (Inr True, p2)
     \<and> es_read_probe_params d pn p2 = (None, p3)
    \<longrightarrow> es_set_range_energy d pn rm e t th permanent True p = (Inr True, p3))
   \<and> (ps_read_probe_p_values d' pn' p' = (Some cur', p1') \<and> distinct (map fst upds)
     \<and> (\<forall>(name, v) \<in> set upds. name \<in> set P_NAMES \<and> 0 \<le> v \<and> v \<le> 31)
     \<and> ps_set_probe_p_values d' pn' (overlay cur' upds) permanent' 3 p1' = (Inr True, p2')
     \<and> ps_read_probe_p_values d' pn' p2' = (None, p3')
    \<longrightarrow> ps_set_individual_p_values d' pn' upds permanent' True p' = (Inr True, p3'))
   \<and> (BEAM_PRESETS preset_name = Some preset_values
     \<and> ps_set_probe_p_values d'' pn'' preset_values permanent'' 3 p'' = (Inr True, p1'')
     \<and> ps_read_probe_p_values d'' pn'' p1'' = (None, p2'')
    \<longrightarrow> ps_apply_preset d'' pn'' preset_name permanent'' True p'' = (Inr True, p2''))"
proof (intro conjI impI)
  assume a: "rm \<noteq> ROther \<and> es_read_probe_params d pn p = (Some cur, p1)
     \<and> new = es_new_params cur rm e t th
     \<and> es_set_probe_params d pn (energy1 new) (time1 new) (threshold1 new)
         (energy2 new) (time2 new) (threshold2 new)
         (energy3 new) (time3 new) (threshold3 new) permanent 3 p1 = (Inr True, p2)
     \<and> es_read_probe_params d pn p2 = (None, p3)"
  show "es_set_range_energy d pn rm e t th permanent True p = (Inr True, p3)"
  proof -
    from a have 1: "rm \<noteq> ROther" and 2: "es_read_probe_params d pn p = (Some cur, p1)"
      and 3: "new = es_new_params cur rm e t th"
      and 4: "es_set_probe_params d pn (energy1 new) (time1 new) (threshold1 new)
         (energy2 new) (time2 new) (threshold2 new)
         (energy3 new) (time3 new) (threshold3 new) permanent 3 p1 = (Inr True, p2)"
      and 5: "es_read_probe_params d pn p2 = (None, p3)"
      by blast+
    show ?thesis using es_verified [OF 1 2 3 4 5] by simp
  qed
next
  assume a: "ps_read_probe_p_values d' pn' p' = (Some cur', p1') \<and> distinct (map fst upds)
     \<and> (\<forall>(name, v) \<in> set upds. name \<in> set P_NAMES \<and> 0 \<le> v \<and> v \<le> 31)
     \<and> ps_set_probe_p_values d' pn' (overlay cur' upds) permanent' 3 p1' = (Inr True, p2')
     \<and> ps_read_probe_p_values d' pn' p2' = (None, p3')"
  show "ps_set_individual_p_values d' pn' upds permanent' True p' = (Inr True, p3')"
    using ps_verified [of d' pn' p' cur' p1' upds permanent' p2' None p3'] a by simp
next
  assume a: "BEAM_PRESETS preset_name = Some preset_values
     \<and> ps_set_probe_p_values d'' pn'' preset_values permanent'' 3 p'' = (Inr True, p1'')
     \<and> ps_read_probe_p_values d'' pn'' p1'' = (None, p2'')"
  show "ps_apply_preset d'' pn'' preset_name permanent'' True p'' = (Inr True, p2'')"
    using preset_verified [of preset_name preset_values d'' pn'' permanent'' p'' p1'' None p2''] a
    by simp
qed

theorem unverifiable_write_reports_success_witness:
  "fst (es_set_range_energy scripted 1 R2_5 2 None None False True
          (start [current_frame, ack_ok])) = Inr True
   \<and> fst (ps_set_individual_p_values scripted 1 [(''P1'', 15)] False True
          (start [p_current_frame, p_ack_ok])) = Inr True
   \<and> fst (ps_apply_preset scripted 1 ''narrow'' False True (start [p_ack_ok])) = Inr True"
proof -
  let ?cur = "\<lparr>energy1 = 3, time1 = 2, threshold1 = 2, energy2 = 1, time2 = 0,
               threshold2 = 2, energy3 = 5, time3 = 6, threshold3 = 2\<rparr>"
  let ?new = "\<lparr>energy1 = 2, time1 = 2, threshold1 = 2, energy2 = 1, time2 = 0,
               threshold2 = 2, energy3 = 5, time3 = 6, threshold3 = 2\<rparr>"
  let ?q = "[EvReset, EvWrite [0xE8, 0x99, 0xD1, 0xA0], EvFlush, EvRead 15]"
  let ?w = "[EvReset, EvWrite (es_full_command 0xB1 2 2 2 1 0 2 5 6 2), EvFlush, EvRead 5]"
  let ?p1 = "\<lparr>dev_state = [ack_ok], trace = ?q\<rparr>"
  let ?p2 = "\<lparr>dev_state = ([] :: bytes list), trace = ?q @ ?w\<rparr>"
  let ?p3 = "\<lparr>dev_state = ([] :: bytes list), trace = ?q @ ?w @ ?q\<rparr>"
  have e1: "es_read_probe_params scripted 1 (start [current_frame, ack_ok]) = (Some ?cur, ?p1)"
    by (simp add: frame_defs es_eval scripted_eval)
  have e2: "es_new_params ?cur R2_5 2 None None = ?new"
    by (simp add: es_new_params_def)
  have e3: "es_set_probe_params scripted 1 2 2 2 1 0 2 5 6 2 False 3 ?p1 = (Inr True, ?p2)"
    by (simp add: frame_defs es_eval scripted_eval)
  have e4: "es_read_probe_params scripted 1 ?p2 = (None, ?p3)"
    by (simp add: es_eval scripted_eval)
  let ?pcur = "[19, 19, 19, 31, 31, 31, 31, 31, 31, 31, 31, 31, 0, 3, 1, 0, 1 :: int]"
  let ?pnew = "[15, 19, 19, 31, 31, 31, 31, 31, 31, 31, 31, 31, 0, 3, 1, 0, 1 :: int]"
  let ?pq = "[EvReset, EvWrite [0xE8, 0x99, 0xE1, 0x90], EvFlush, EvRead 21]"
  let ?pw = "[EvReset, EvWrite (ps_full_command 0xC1 ?pnew), EvFlush, EvRead 5]"
  let ?q1 = "\<lparr>dev_state = [p_ack_ok], trace = ?pq\<rparr>"
  let ?q2 = "\<lparr>dev_state = ([] :: bytes list), trace = ?pq @ ?pw\<rparr>"
  let ?q3 = "\<lparr>dev_state = ([] :: bytes list), trace = ?pq @ ?pw @ ?pq\<rparr>"
  have o: "overlay ?pcur [(''P1'', 15)] = ?pnew"
    by (simp add: overlay_def P_NAMES_def upt_conv_Cons)
  have i1: "ps_read_probe_p_values scripted 1 (start [p_current_frame, p_ack_ok])
              = (Some ?pcur, ?q1)"
    by (simp add: frame_defs ps_eval scripted_eval)
  have i2: "distinct (map fst [(''P1'', 15 :: int)])" by simp
  have i3: "\<forall>(name, v) \<in> set [(''P1'', 15 :: int)]. name \<in> set P_NAMES \<and> 0 \<le> v \<and> v \<le> 31"
    by (simp add: P_NAMES_def)
  have i4: "ps_set_probe_p_values scripted 1 (overlay ?pcur [(''P1'', 15)]) False 3 ?q1
              = (Inr True, ?q2)"
    by (simp add: o frame_defs ps_eval scripted_eval)
  have i5: "ps_read_probe_p_values scripted 1 ?q2 = (None, ?q3)"
    by (simp add: ps_eval scripted_eval)
  let ?narrow = "[31, 31, 31, 30, 26, 21, 16, 16, 13, 0, 0, 0, 0, 3, 1, 0, 1 :: int]"
  let ?nw = "[EvReset, EvWrite (ps_full_command 0xC1 ?narrow), EvFlush, EvRead 5]"
  let ?n1 = "\<lparr>dev_state = ([] :: bytes list), trace = ?nw\<rparr>"
  let ?n2 = "\<lparr>dev_state = ([] :: bytes list), trace = ?nw @ ?pq\<rparr>"
  have n0: "BEAM_PRESETS ''narrow'' = Some ?narrow" by (simp add: BEAM_PRESETS_def)
  have n1: "ps_set_probe_p_values scripted 1 ?narrow False 3 (start [p_ack_ok]) = (Inr True, ?n1)"
    by (simp add: frame_defs ps_eval scripted_eval)
  have n2: "ps_read_probe_p_values scripted 1 ?n1 = (None, ?n2)"
    by (simp add: ps_eval scripted_eval)
  have a: "es_set_range_energy scripted 1 R2_5 2 None None False True
          (start [current_frame, ack_ok]) = (Inr True, ?p3)"
    using e1 e2 e3 e4
      unverifiable_write_reports_success [THEN conjunct1, rule_format,
        of R2_5 scripted 1 "start [current_frame, ack_ok]" ?cur ?p1 ?new 2 None None False
          ?p2 ?p3]
    by simp
  have b: "ps_set_individual_p_values scripted 1 [(''P1'', 15)] False True
          (start [p_current_frame, p_ack_ok]) = (Inr True, ?q3)"
    using i1 i2 i3 i4 i5
      unverifiable_write_reports_success [THEN conjunct2, THEN conjunct1, rule_format,
        of scripted 1 "start [p_current_frame, p_ack_ok]" ?pcur ?q1 "[(''P1'', 15)]" False
          ?q2 ?q3]
    by simp
  have c: "ps_apply_preset scripted 1 ''narrow'' False True (start [p_ack_ok]) = (Inr True, ?n2)"
    using n0 n1 n2
      unverifiable_write_reports_success [THEN conjunct2, THEN conjunct2, rule_format,
        of "''narrow''" ?narrow scripted 1 False "start [p_ack_ok]" ?n1 ?n2]
    by simp
  show ?thesis using a b c by simp
qed

end
